theory Spec2Isabelle
  imports Complex_Main "HOL-Library.Word"
begin

section \<open>Conventions\<close>

text \<open>
  The cookie-stamp pipeline of \<^verbatim>\<open>utils/meshGenerator\<close> (createStampGeometry,
  generateSilhouetteShape, createBasePlate, createCutterFrame) and the layout step of
  \<^verbatim>\<open>components/Viewer3D.tsx\<close> (the \<^verbatim>\<open>generate\<close> closure of SceneContent).

  JavaScript numbers are modelled as real numbers: every statement below is about the
  exact arithmetic of the formulas in the source, not about IEEE rounding. A division
  whose divisor is zero gives Infinity or NaN in JavaScript and 0 in HOL: the values of
  the model are those of the source where the divisors (the width of the settings, the
  measured extents) are not zero, and every theorem about a value that depends on a
  quotient carries that hypothesis. The bytes of a canvas ImageData are 8-bit words.
\<close>

section \<open>Data model\<close>

datatype shape_kind = Rectangle | Circle | Outline

text \<open>The interface CutterSettings of \<^verbatim>\<open>types.ts\<close>.\<close>

record CutterSettings =
  width :: real
  height :: real
  baseThickness :: real
  detailHeight :: real
  invert :: bool
  threshold :: real
  smoothing :: real
  shape :: shape_kind
  frameThickness :: real
  frameHeight :: real

text \<open>One RGBA pixel of an ImageData buffer (four consecutive bytes), and the buffer.\<close>

type_synonym pixel = "8 word \<times> 8 word \<times> 8 word \<times> 8 word"
type_synonym imageData = "pixel list"

text \<open>\<^verbatim>\<open>const avg = (data[i] + data[i + 1] + data[i + 2]) / 3\<close>\<close>

fun avg :: "pixel \<Rightarrow> real" where
  "avg (r, g, b, a) = (real (unat r) + real (unat g) + real (unat b)) / 3"

section \<open>createStampGeometry: thresholding\<close>

text \<open>
  The body of the thresholding loop (source lines 257 to 266): \<^verbatim>\<open>isDark\<close>,
  \<^verbatim>\<open>isSolid\<close>, and the pixel written back (alpha forced to 255).
\<close>

definition isSolid :: "CutterSettings \<Rightarrow> pixel \<Rightarrow> bool" where
  "isSolid settings p =
     (let isDark = avg p < threshold settings
      in if invert settings then \<not> isDark else isDark)"

definition thresholdPixel :: "CutterSettings \<Rightarrow> pixel \<Rightarrow> pixel" where
  "thresholdPixel settings p =
     (let val = (if isSolid settings p then 0 else 255) in (val, val, val, 255))"

definition thresholding :: "CutterSettings \<Rightarrow> imageData \<Rightarrow> imageData" where
  "thresholding settings data = map (thresholdPixel settings) data"

text \<open>The complement of a two-tone pixel: black becomes white and white becomes black.\<close>

definition complementPixel :: "pixel \<Rightarrow> pixel" where
  "complementPixel p = (case p of (r, g, b, a) \<Rightarrow> (255 - r, 255 - g, 255 - b, a))"

section \<open>Geometry: the operations of three.js that the source calls\<close>

text \<open>
  A \<^verbatim>\<open>THREE.Shape\<close> is modelled by the sampled points of its outer contour (what
  \<^verbatim>\<open>shape.getPoints()\<close> returns) and the sampled points of each of its holes. A
  \<^verbatim>\<open>THREE.BufferGeometry\<close> is modelled by its vertex positions; triangles, normals and the
  multiplicity of a position in the buffer are not modelled, since the source reads a
  geometry only through its bounding box.
\<close>

type_synonym vec2 = "real \<times> real"
type_synonym vec3 = "real \<times> real \<times> real"

record Shape =
  getPoints :: "vec2 list"
  holes :: "vec2 list list"

type_synonym geometry = "vec3 list"

fun vx :: "vec3 \<Rightarrow> real" where "vx (x, y, z) = x"
fun vy :: "vec3 \<Rightarrow> real" where "vy (x, y, z) = y"
fun vz :: "vec3 \<Rightarrow> real" where "vz (x, y, z) = z"

text \<open>\<^verbatim>\<open>new THREE.BufferGeometry()\<close>: no position attribute.\<close>

definition BufferGeometry :: geometry where
  "BufferGeometry = []"

text \<open>\<^verbatim>\<open>geometry.translate(tx, ty, tz)\<close>, \<^verbatim>\<open>geometry.scale(sx, sy, sz)\<close> and
  \<^verbatim>\<open>geometry.rotateX(angle)\<close> (the matrix of Matrix4.makeRotationX), applied to every
  position. The source mutates the geometry; the model returns the new one.\<close>

definition translateGeometry :: "real \<Rightarrow> real \<Rightarrow> real \<Rightarrow> geometry \<Rightarrow> geometry" where
  "translateGeometry tx ty tz g = map (\<lambda>(x, y, z). (x + tx, y + ty, z + tz)) g"

definition scaleGeometry :: "real \<Rightarrow> real \<Rightarrow> real \<Rightarrow> geometry \<Rightarrow> geometry" where
  "scaleGeometry sx sy sz g = map (\<lambda>(x, y, z). (x * sx, y * sy, z * sz)) g"

definition rotateX :: "real \<Rightarrow> geometry \<Rightarrow> geometry" where
  "rotateX angle g =
     map (\<lambda>(x, y, z). (x, cos angle * y - sin angle * z, sin angle * y + cos angle * z)) g"

text \<open>
  \<^verbatim>\<open>new THREE.ExtrudeGeometry(shapes, {depth, bevelEnabled: false, steps: 1})\<close>: every
  point of every contour (outer contour and holes) of every shape appears at z = 0 and at
  z = depth (the side walls use each contour point at both levels). The constructor does
  not test the sign of depth.
\<close>

definition contourPoints :: "Shape \<Rightarrow> vec2 list" where
  "contourPoints sh = getPoints sh @ concat (holes sh)"

definition extrudeShape :: "real \<Rightarrow> Shape \<Rightarrow> geometry" where
  "extrudeShape depth sh =
     map (\<lambda>(x, y). (x, y, 0)) (contourPoints sh) @ map (\<lambda>(x, y). (x, y, depth)) (contourPoints sh)"

definition ExtrudeGeometry :: "Shape list \<Rightarrow> real \<Rightarrow> geometry" where
  "ExtrudeGeometry shapes depth = concat (map (extrudeShape depth) shapes)"

text \<open>\<^verbatim>\<open>new THREE.BoxGeometry(w, h, d)\<close>: the eight corners of a box centred at the origin.\<close>

definition BoxGeometry :: "real \<Rightarrow> real \<Rightarrow> real \<Rightarrow> geometry" where
  "BoxGeometry w h d =
     [(x, y, z). x \<leftarrow> [- w / 2, w / 2], y \<leftarrow> [- h / 2, h / 2], z \<leftarrow> [- d / 2, d / 2]]"

text \<open>
  \<^verbatim>\<open>new THREE.CylinderGeometry(radiusTop, radiusBottom, height, radialSegments)\<close>: an axis
  along y, a ring of radialSegments + 1 positions at y = height / 2 and one at
  y = - height / 2, and for a cap of positive radius its centre and its ring again.
\<close>

definition ring :: "real \<Rightarrow> real \<Rightarrow> nat \<Rightarrow> geometry" where
  "ring radius y radialSegments =
     map (\<lambda>k. let theta = real k / real radialSegments * (2 * pi)
              in (radius * sin theta, y, radius * cos theta)) [0..<radialSegments + 1]"

definition CylinderGeometry :: "real \<Rightarrow> real \<Rightarrow> real \<Rightarrow> nat \<Rightarrow> geometry" where
  "CylinderGeometry radiusTop radiusBottom h radialSegments =
     (let halfHeight = h / 2
      in ring radiusTop halfHeight radialSegments @ ring radiusBottom (- halfHeight) radialSegments
         @ (if radiusTop > 0 then (0, halfHeight, 0) # ring radiusTop halfHeight radialSegments else [])
         @ (if radiusBottom > 0
            then (0, - halfHeight, 0) # ring radiusBottom (- halfHeight) radialSegments else []))"

text \<open>
  \<^verbatim>\<open>path.absarc(aX, aY, aRadius, 0, Math.PI * 2, aClockwise)\<close> on an empty path, as sampled by
  getPoints with the default 12 divisions (an ellipse curve is sampled at twice the
  divisions): 25 points on the circle, the angle running from 0 to 2 pi, or to - 2 pi
  when clockwise.
\<close>

definition absarc :: "real \<Rightarrow> real \<Rightarrow> real \<Rightarrow> bool \<Rightarrow> vec2 list" where
  "absarc aX aY aRadius aClockwise =
     map (\<lambda>k. let angle = (if aClockwise then - 1 else 1) * (real k / 24 * (2 * pi))
              in (aX + aRadius * cos angle, aY + aRadius * sin angle)) [0..<25]"

text \<open>
  \<^verbatim>\<open>geometry.computeBoundingBox()\<close>: the componentwise minimum and maximum of the
  positions. Without positions three.js makes the box empty (min = +Infinity,
  max = -Infinity); the model returns None. \<^verbatim>\<open>box.getCenter(target)\<close> is (0, 0, 0) for
  the empty box and the midpoint otherwise.
\<close>

definition boundingBox :: "geometry \<Rightarrow> (vec3 \<times> vec3) option" where
  "boundingBox g =
     (if g = [] then None
      else Some ((Min (set (map vx g)), Min (set (map vy g)), Min (set (map vz g))),
                 (Max (set (map vx g)), Max (set (map vy g)), Max (set (map vz g)))))"

definition getCenter :: "(vec3 \<times> vec3) option \<Rightarrow> vec3" where
  "getCenter box =
     (case box of
        None \<Rightarrow> (0, 0, 0)
      | Some (bmin, bmax) \<Rightarrow>
          ((vx bmin + vx bmax) * 0.5, (vy bmin + vy bmax) * 0.5, (vz bmin + vz bmax) * 0.5))"

text \<open>
  \<^verbatim>\<open>THREE.ShapeUtils.area(contour)\<close>: the signed shoelace sum over the cyclic pairs
  (p, q) = (n - 1, 0), (0, 1), ..., (n - 2, n - 1), halved.
\<close>

fun areaLoop :: "real \<Rightarrow> vec2 \<Rightarrow> vec2 list \<Rightarrow> real" where
  "areaLoop a p [] = a"
| "areaLoop a p (q # qs) = areaLoop (a + (fst p * snd q - fst q * snd p)) q qs"

definition area :: "vec2 list \<Rightarrow> real" where
  "area contour = (if contour = [] then 0 else areaLoop 0 (last contour) contour) * 0.5"

text \<open>
  Errors. \<^verbatim>\<open>new THREE.Shape(points)\<close> reads \<^verbatim>\<open>points[0].x\<close>, so it throws a TypeError on
  an empty array; nothing else in the modelled code throws.
\<close>

datatype error = TypeError

section \<open>generateSilhouetteShape: the largest shape\<close>

text \<open>
  Source lines 120 to 134, applied to the shapes that svgToShapes returns: null (None)
  for no shape, else a forEach that keeps \<^verbatim>\<open>bestShape\<close> and \<^verbatim>\<open>maxArea\<close>, starting from
  \<^verbatim>\<open>shapes[0]\<close> and 0.
\<close>

definition largestStep :: "Shape \<Rightarrow> Shape \<times> real \<Rightarrow> Shape \<times> real" where
  "largestStep sh st =
     (case st of (bestShape, maxArea) \<Rightarrow>
        let a = \<bar>area (getPoints sh)\<bar>
        in if a > maxArea then (sh, a) else (bestShape, maxArea))"

definition largestShape :: "Shape list \<Rightarrow> Shape option" where
  "largestShape shapes =
     (if length shapes = 0 then None
      else Some (fst (fold largestStep shapes (shapes ! 0, 0))))"

text \<open>\<^verbatim>\<open>Math.abs(THREE.ShapeUtils.area(shape.getPoints()))\<close>\<close>

abbreviation unsignedArea :: "Shape \<Rightarrow> real" where
  "unsignedArea sh \<equiv> \<bar>area (getPoints sh)\<bar>"

section \<open>createBasePlate and createCutterFrame\<close>

definition createBasePlate :: "CutterSettings \<Rightarrow> Shape option \<Rightarrow> geometry" where
  "createBasePlate settings outlineShape =
     (let thickness = baseThickness settings
      in case (shape settings, outlineShape) of
           (Outline, Some sh) \<Rightarrow>
             translateGeometry 0 0 (- thickness) (ExtrudeGeometry [sh] thickness)
         | _ \<Rightarrow>
             if shape settings = Rectangle
             then translateGeometry 0 0 (- thickness / 2)
                    (BoxGeometry (width settings) (height settings) thickness)
             else let radius = width settings / 2
                  in translateGeometry 0 0 (- thickness / 2)
                       (rotateX (pi / 2) (CylinderGeometry radius radius thickness 64)))"

text \<open>The pieces of the outline branch of createCutterFrame (source lines 167 to 190).\<close>

text \<open>\<^verbatim>\<open>if (points.length > 0 && !points[0].equals(points[points.length-1])) points.push(points[0])\<close>\<close>

definition closePoints :: "vec2 list \<Rightarrow> vec2 list" where
  "closePoints points =
     (if length points > 0 \<and> \<not> (hd points = last points) then points @ [hd points] else points)"

text \<open>\<^verbatim>\<open>Math.max(0.5, 1 - (2 * settings.frameThickness / settings.width))\<close>\<close>

definition holeScale :: "CutterSettings \<Rightarrow> real" where
  "holeScale settings = max 0.5 (1 - (2 * frameThickness settings / width settings))"

text \<open>\<^verbatim>\<open>cx\<close> and \<^verbatim>\<open>cy\<close>: the sums accumulated by forEach, divided by the number of points.\<close>

definition centroid :: "vec2 list \<Rightarrow> vec2" where
  "centroid points =
     (case fold (\<lambda>p (cx, cy). (cx + fst p, cy + snd p)) points (0, 0) of
        (cx, cy) \<Rightarrow> (cx / real (length points), cy / real (length points)))"

definition holePoints :: "real \<Rightarrow> vec2 \<Rightarrow> vec2 list \<Rightarrow> vec2 list" where
  "holePoints scale c points =
     (case c of (cx, cy) \<Rightarrow>
        map (\<lambda>p. (cx + (fst p - cx) * scale, cy + (snd p - cy) * scale)) points)"

text \<open>
  The profiles of the rectangle and circle branches (source lines 207 to 226), from
  \<^verbatim>\<open>w = settings.width / 2\<close>, \<^verbatim>\<open>h = settings.height / 2\<close> and
  \<^verbatim>\<open>t = settings.frameThickness\<close>: the moveTo/lineTo points of the outer rectangle and
  of its hole, and the two arcs of the ring.
\<close>

definition rectangleFrameShape :: "real \<Rightarrow> real \<Rightarrow> real \<Rightarrow> Shape" where
  "rectangleFrameShape w h t =
     \<lparr>getPoints = [(- w - t, - h - t), (w + t, - h - t), (w + t, h + t), (- w - t, h + t),
                   (- w - t, - h - t)],
      holes = [[(- w, - h), (- w, h), (w, h), (w, - h), (- w, - h)]]\<rparr>"

definition circleFrameShape :: "real \<Rightarrow> real \<Rightarrow> Shape" where
  "circleFrameShape w t =
     (let r = w in \<lparr>getPoints = absarc 0 0 (r + t) False, holes = [absarc 0 0 r True]\<rparr>)"

definition createCutterFrame :: "CutterSettings \<Rightarrow> Shape option \<Rightarrow> error + geometry" where
  "createCutterFrame settings outlineShape =
     (let totalHeight = frameHeight settings + baseThickness settings
      in case (shape settings, outlineShape) of
           (Outline, Some sh) \<Rightarrow>
             let points = closePoints (getPoints sh);
                 scale = holeScale settings;
                 c = centroid points
             in if points = [] then Inl TypeError
                else
                  let wallShape = \<lparr>getPoints = points, holes = [holePoints scale c points]\<rparr>
                  in Inr (translateGeometry 0 0 (- baseThickness settings)
                            (ExtrudeGeometry [wallShape] totalHeight))
         | _ \<Rightarrow>
             let w = width settings / 2;
                 h = height settings / 2;
                 t = frameThickness settings;
                 shape' = (if shape settings = Rectangle then rectangleFrameShape w h t
                           else circleFrameShape w t)
             in Inr (translateGeometry 0 0 (- baseThickness settings)
                       (ExtrudeGeometry [shape'] totalHeight)))"

section \<open>createStampGeometry: the extrusion\<close>

text \<open>
  Source lines 281 to 291, applied to the shapes that svgToShapes returns for the traced
  relief mask.
\<close>

definition stampFromShapes :: "CutterSettings \<Rightarrow> Shape list \<Rightarrow> geometry" where
  "stampFromShapes settings shapes =
     (if length shapes = 0 then BufferGeometry
      else scaleGeometry 1 (- 1) 1 (ExtrudeGeometry shapes (detailHeight settings)))"

text \<open>
  createStampGeometry after the canvas has been read (source lines 256 to 291): the
  thresholding loop, the trace and the extrusion. ImageTracer.imagedataToSVG followed by
  svgToShapes is outside the repository and is the parameter \<^verbatim>\<open>trace\<close>.
\<close>

definition createStampGeometry ::
  "(imageData \<Rightarrow> Shape list) \<Rightarrow> CutterSettings \<Rightarrow> imageData \<Rightarrow> geometry" where
  "createStampGeometry trace settings data =
     stampFromShapes settings (trace (thresholding settings data))"

section \<open>generateSilhouetteShape: the three pixel passes\<close>

text \<open>Pass 1 (source lines 60 to 67): content becomes black, the rest white; the alpha
  byte is not written.\<close>

definition contentPixel :: "pixel \<Rightarrow> pixel" where
  "contentPixel p =
     (case p of (r, g, b, a) \<Rightarrow>
        let isContent = avg p < 200;
            val = (if isContent then 0 else 255)
        in (val, val, val, a))"

definition highContrast :: "imageData \<Rightarrow> imageData" where
  "highContrast data = map contentPixel data"

text \<open>
  Pass 2 (source lines 71 to 89) runs in the browser. The drawing model of the Canvas 2D
  API for drawImage with a shadow: the shadow of the image (a layer that the browser
  renders from the alpha channel of the image with shadowColor and shadowBlur) is
  composited onto the canvas, then the image itself is composited over it, both with the
  default operation source-over. Under source-over a source pixel of alpha 255 replaces
  the destination pixel and one of alpha 0 keeps it. The rendering of the shadow layer
  and the rounding of a blend with a partial alpha belong to the browser: they are the
  parameters \<^verbatim>\<open>shadow\<close> and \<^verbatim>\<open>blend\<close>. The two canvases have the same size and the image
  is drawn at (0, 0), so pixels correspond by index.
\<close>

definition sourceOver :: "(pixel \<Rightarrow> pixel \<Rightarrow> pixel) \<Rightarrow> pixel \<Rightarrow> pixel \<Rightarrow> pixel" where
  "sourceOver blend src dst =
     (case src of (r, g, b, a) \<Rightarrow>
        if a = 255 then src else if a = 0 then dst else blend src dst)"

definition composite :: "(pixel \<Rightarrow> pixel \<Rightarrow> pixel) \<Rightarrow> imageData \<Rightarrow> imageData \<Rightarrow> imageData" where
  "composite blend src dst = map2 (sourceOver blend) src dst"

definition drawImageWithShadow ::
  "(pixel \<Rightarrow> pixel \<Rightarrow> pixel) \<Rightarrow> (imageData \<Rightarrow> imageData) \<Rightarrow> imageData \<Rightarrow> imageData \<Rightarrow> imageData" where
  "drawImageWithShadow blend shadow img canvas =
     composite blend img (composite blend (shadow img) canvas)"

text \<open>The temporary canvas is filled with white, then the image is drawn three times.\<close>

definition dilation ::
  "(pixel \<Rightarrow> pixel \<Rightarrow> pixel) \<Rightarrow> (imageData \<Rightarrow> imageData) \<Rightarrow> imageData \<Rightarrow> imageData" where
  "dilation blend shadow canvas =
     (let tempCanvas = replicate (length canvas) (255, 255, 255, 255);
          draw = drawImageWithShadow blend shadow canvas
      in draw (draw (draw tempCanvas)))"

text \<open>Pass 3 (source lines 92 to 106): the cut at 240, alpha forced to 255.\<close>

definition bubblePixel :: "pixel \<Rightarrow> pixel" where
  "bubblePixel p =
     (let cutThreshold = 240;
          isInsideBubble = avg p < cutThreshold;
          val = (if isInsideBubble then 0 else 255)
      in (val, val, val, 255))"

definition cutterThreshold :: "imageData \<Rightarrow> imageData" where
  "cutterThreshold bData = map bubblePixel bData"

text \<open>The mask handed to the tracer, and generateSilhouetteShape after the canvas has
  been read (source lines 56 to 134), with the tracer as a parameter as above.\<close>

definition expandedMask ::
  "(pixel \<Rightarrow> pixel \<Rightarrow> pixel) \<Rightarrow> (imageData \<Rightarrow> imageData) \<Rightarrow> imageData \<Rightarrow> imageData" where
  "expandedMask blend shadow data = cutterThreshold (dilation blend shadow (highContrast data))"

definition generateSilhouetteShape ::
  "(pixel \<Rightarrow> pixel \<Rightarrow> pixel) \<Rightarrow> (imageData \<Rightarrow> imageData) \<Rightarrow> (imageData \<Rightarrow> Shape list)
     \<Rightarrow> imageData \<Rightarrow> Shape option" where
  "generateSilhouetteShape blend shadow trace data =
     largestShape (trace (expandedMask blend shadow data))"

section \<open>flipGeometryY\<close>

text \<open>
  Modelled from the spec: flipGeometryY is imported by Viewer3D.tsx from
  \<^verbatim>\<open>utils/meshGenerator\<close> and called on the wall and on the base, but its body is not
  among the sources. Section 4.6 (c) of the specification: the vertical-axis mismatch
  between tracing space (Y down) and solid space (Y up) is reconciled "by flipping the Y
  coordinate of wall and base geometry once". The model negates the y coordinate of every
  position.
\<close>

definition flipGeometryY :: "geometry \<Rightarrow> geometry" where
  "flipGeometryY g = map (\<lambda>(x, y, z). (x, - y, z)) g"

section \<open>SceneContent: generate\<close>

text \<open>The three geometries that generate stores with setStampGeometry, setFrameGeometry
  and setBaseGeometry. Every path that reaches the setters has assigned frameGeo and
  baseGeo.\<close>

record assembly =
  stampGeometry :: geometry
  frameGeometry :: geometry
  baseGeometry :: geometry

text \<open>
  \<^verbatim>\<open>box.max.x - box.min.x\<close> and \<^verbatim>\<open>box.max.y - box.min.y\<close> of the bounding box computed
  by computeBoundingBox. For a geometry without positions JavaScript computes -Infinity;
  the model returns None.
\<close>

definition extentX :: "geometry \<Rightarrow> real option" where
  "extentX g = (case boundingBox g of None \<Rightarrow> None | Some (bmin, bmax) \<Rightarrow> Some (vx bmax - vx bmin))"

definition extentY :: "geometry \<Rightarrow> real option" where
  "extentY g = (case boundingBox g of None \<Rightarrow> None | Some (bmin, bmax) \<Rightarrow> Some (vy bmax - vy bmin))"

text \<open>
  The rectangle and circle branch (source lines 100 to 111) applied to the stamp, with
  stampW and stampH of lines 74 and 75. A stamp without positions has stampW = -Infinity,
  the scale and the translation leave it without positions: the model returns it
  unchanged.
\<close>

definition fitScale :: "CutterSettings \<Rightarrow> real \<Rightarrow> real \<Rightarrow> real" where
  "fitScale settings stampW stampH =
     (let padding = width settings * 0.05;
          availableW = width settings - (padding * 2);
          availableH = height settings - (padding * 2);
          scaleX = availableW / stampW;
          scaleY = availableH / stampH
      in min scaleX scaleY)"

definition fitStamp :: "CutterSettings \<Rightarrow> geometry \<Rightarrow> geometry" where
  "fitStamp settings stampGeo =
     (case (extentX stampGeo, extentY stampGeo) of
        (Some stampW, Some stampH) \<Rightarrow>
          let s = fitScale settings stampW stampH;
              scaled = scaleGeometry s s 1 stampGeo;
              center = getCenter (boundingBox scaled)
          in translateGeometry (- vx center) (- vy center) 0 scaled
      | _ \<Rightarrow> stampGeo)"

text \<open>\<^verbatim>\<open>if (frameW > 0) finalGroupScale = settings.width / frameW\<close>, from the initial value 1
  (source lines 79 and 89 to 91).\<close>

definition outlineGroupScale :: "CutterSettings \<Rightarrow> geometry \<Rightarrow> real" where
  "outlineGroupScale settings frameGeo =
     (case extentX frameGeo of
        None \<Rightarrow> 1
      | Some frameW \<Rightarrow> if frameW > 0 then width settings / frameW else 1)"

text \<open>\<^verbatim>\<open>if (finalGroupScale !== 1)\<close>: the same factor on x and y of the three geometries
  (source lines 115 to 119).\<close>

definition applyGroupScale :: "real \<Rightarrow> geometry \<Rightarrow> geometry \<Rightarrow> geometry \<Rightarrow> assembly" where
  "applyGroupScale finalGroupScale stampGeo frameGeo baseGeo =
     (if finalGroupScale \<noteq> 1
      then \<lparr>stampGeometry = scaleGeometry finalGroupScale finalGroupScale 1 stampGeo,
            frameGeometry = scaleGeometry finalGroupScale finalGroupScale 1 frameGeo,
            baseGeometry = scaleGeometry finalGroupScale finalGroupScale 1 baseGeo\<rparr>
      else \<lparr>stampGeometry = stampGeo, frameGeometry = frameGeo, baseGeometry = baseGeo\<rparr>)"

text \<open>
  The body of generate after the two awaits (source lines 70 to 125): stampGeo is the
  value of createStampGeometry and silhouetteShape the value of generateSilhouetteShape
  (read only when shape = outline). An exception is caught by the try block and nothing
  is stored: the model returns the error.
\<close>

definition generate :: "CutterSettings \<Rightarrow> geometry \<Rightarrow> Shape option \<Rightarrow> error + assembly" where
  "generate settings stampGeo silhouetteShape =
     (if shape settings = Outline
      then (case silhouetteShape of
              Some sil \<Rightarrow>
                (case createCutterFrame settings (Some sil) of
                   Inl e \<Rightarrow> Inl e
                 | Inr frame0 \<Rightarrow>
                     let base0 = createBasePlate settings (Some sil);
                         frameGeo = flipGeometryY frame0;
                         baseGeo = flipGeometryY base0;
                         finalGroupScale = outlineGroupScale settings frameGeo
                     in Inr (applyGroupScale finalGroupScale stampGeo frameGeo baseGeo))
            | None \<Rightarrow>
                (case createCutterFrame (settings\<lparr>shape := Rectangle\<rparr>) None of
                   Inl e \<Rightarrow> Inl e
                 | Inr frameGeo \<Rightarrow>
                     let baseGeo = createBasePlate (settings\<lparr>shape := Rectangle\<rparr>) None
                     in Inr (applyGroupScale 1 stampGeo frameGeo baseGeo)))
      else (case createCutterFrame settings None of
              Inl e \<Rightarrow> Inl e
            | Inr frameGeo \<Rightarrow>
                let baseGeo = createBasePlate settings None
                in Inr (applyGroupScale 1 (fitStamp settings stampGeo) frameGeo baseGeo)))"

section \<open>Example inputs\<close>

text \<open>The initial settings of \<^verbatim>\<open>App.tsx\<close> (useState of CutterSettings).\<close>

definition defaultSettings :: CutterSettings where
  "defaultSettings =
     \<lparr>width = 90, height = 90, baseThickness = 2, detailHeight = 3.5, invert = False,
      threshold = 160, smoothing = 0, shape = Outline, frameThickness = 2, frameHeight = 8\<rparr>"

text \<open>An axis-parallel square contour with corner (x0, y0) and side a, without holes.\<close>

definition squareShape :: "real \<Rightarrow> real \<Rightarrow> real \<Rightarrow> Shape" where
  "squareShape x0 y0 a =
     \<lparr>getPoints = [(x0, y0), (x0 + a, y0), (x0 + a, y0 + a), (x0, y0 + a)], holes = []\<rparr>"

text \<open>A silhouette taller than wide, in tracing units, and a relief inside it.\<close>

definition tallSilhouette :: Shape where
  "tallSilhouette = \<lparr>getPoints = [(0, 0), (600, 0), (600, 1200), (0, 1200)], holes = []\<rparr>"

definition exampleStamp :: geometry where
  "exampleStamp = stampFromShapes defaultSettings [squareShape 200 300 100]"

text \<open>The wall that createCutterFrame builds for tallSilhouette with the initial settings:
  the closed contour and its hole (centroid (240, 480), factor 43 / 45) at z = - 2 and
  z = 8.\<close>

definition tallFrame :: geometry where
  "tallFrame =
     [(0, 0, - 2), (600, 0, - 2), (600, 1200, - 2), (0, 1200, - 2), (0, 0, - 2),
      (32 / 3, 64 / 3, - 2), (584, 64 / 3, - 2), (584, 1168, - 2), (32 / 3, 1168, - 2),
      (32 / 3, 64 / 3, - 2),
      (0, 0, 8), (600, 0, 8), (600, 1200, 8), (0, 1200, 8), (0, 0, 8),
      (32 / 3, 64 / 3, 8), (584, 64 / 3, 8), (584, 1168, 8), (32 / 3, 1168, 8),
      (32 / 3, 64 / 3, 8)]"

text \<open>A rectangle of 30 by 150 (both sliders of \<^verbatim>\<open>App.tsx\<close> run from 30 to 150) and a thin
  tall relief.\<close>

definition narrowSettings :: CutterSettings where
  "narrowSettings = defaultSettings\<lparr>shape := Rectangle, width := 30, height := 150\<rparr>"

definition thinStamp :: geometry where
  "thinStamp = stampFromShapes narrowSettings
                 [\<lparr>getPoints = [(0, 0), (12, 0), (12, 1200), (0, 1200)], holes = []\<rparr>]"

text \<open>A canvas of two pixels, one dark and one light; a shadow layer of half-transparent
  black; a blend that keeps the destination; a relief without depth.\<close>

definition exampleData :: imageData where
  "exampleData = [(10, 10, 10, 255), (250, 250, 250, 255)]"

definition exampleShadow :: "imageData \<Rightarrow> imageData" where
  "exampleShadow img = replicate (length img) (0, 0, 0, 128)"

definition exampleBlend :: "pixel \<Rightarrow> pixel \<Rightarrow> pixel" where
  "exampleBlend src dst = dst"

definition flatSettings :: CutterSettings where
  "flatSettings = defaultSettings\<lparr>detailHeight := 0\<rparr>"

definition oneSquare :: "imageData \<Rightarrow> Shape list" where
  "oneSquare data = [squareShape 0 0 1]"

definition noShape :: "imageData \<Rightarrow> Shape list" where
  "noShape data = []"

section \<open>Measures of the specification\<close>

text \<open>
  The maximum planar dimension of the combined assembly (section 8 of the specification):
  the larger of the x and y extents of the bounding box of the three geometries together.
  The relief of a result.
\<close>

definition maxPlanarDimension :: "error + assembly \<Rightarrow> real option" where
  "maxPlanarDimension r =
     (case r of
        Inl e \<Rightarrow> None
      | Inr a \<Rightarrow>
          (let g = stampGeometry a @ frameGeometry a @ baseGeometry a
           in case (extentX g, extentY g) of
                (Some w, Some h) \<Rightarrow> Some (max w h)
              | _ \<Rightarrow> None))"

definition resultStamp :: "error + assembly \<Rightarrow> geometry option" where
  "resultStamp r = (case r of Inl e \<Rightarrow> None | Inr a \<Rightarrow> Some (stampGeometry a))"

section \<open>Theorems\<close>

lemma thresholdPixel_invert:
  "thresholdPixel (settings\<lparr>invert := True\<rparr>) p =
     complementPixel (thresholdPixel (settings\<lparr>invert := False\<rparr>) p)"
  by (simp add: thresholdPixel_def isSolid_def complementPixel_def Let_def)

lemma thresholding_nth:
  "i < length data \<Longrightarrow>
     thresholding settings data ! i =
       (if isSolid settings (data ! i) then (0, 0, 0, 255) else (255, 255, 255, 255))"
  by (simp add: thresholding_def thresholdPixel_def Let_def)

text \<open>
  C10. For every pixel and every threshold, the pixel is solid with invert = true exactly
  when it is background with invert = false; with invert = true it is solid iff its
  average RGB is at least the threshold, with invert = false iff the average is below
  the threshold. The thresholding loop writes one pixel per input pixel, black (0, 0, 0,
  255) when the input pixel is solid and white (255, 255, 255, 255) otherwise; so entry i
  of the mask written with invert = true is black iff the average of pixel i is at least
  the threshold, entry i of the mask written with invert = false is black iff that
  average is below the threshold, the one is black exactly when the other is white, and
  the mask with invert = true is the pointwise complement of the mask with
  invert = false.
\<close>

theorem C10_invert_complement:
  "isSolid (settings\<lparr>invert := True\<rparr>) p = (\<not> isSolid (settings\<lparr>invert := False\<rparr>) p)
   \<and> isSolid (settings\<lparr>invert := True\<rparr>) p = (threshold settings \<le> avg p)
   \<and> isSolid (settings\<lparr>invert := False\<rparr>) p = (avg p < threshold settings)
   \<and> thresholding (settings\<lparr>invert := True\<rparr>) data =
       map complementPixel (thresholding (settings\<lparr>invert := False\<rparr>) data)
   \<and> length (thresholding settings data) = length data
   \<and> (\<forall>i<length data.
         thresholding settings data ! i =
           (if isSolid settings (data ! i) then (0, 0, 0, 255) else (255, 255, 255, 255)))
   \<and> (\<forall>i<length data.
         (thresholding (settings\<lparr>invert := True\<rparr>) data ! i = (0, 0, 0, 255))
           = (threshold settings \<le> avg (data ! i))
         \<and> (thresholding (settings\<lparr>invert := False\<rparr>) data ! i = (0, 0, 0, 255))
           = (avg (data ! i) < threshold settings)
         \<and> (thresholding (settings\<lparr>invert := True\<rparr>) data ! i = (0, 0, 0, 255))
           = (thresholding (settings\<lparr>invert := False\<rparr>) data ! i = (255, 255, 255, 255)))"
proof (intro conjI allI impI)
  show "isSolid (settings\<lparr>invert := True\<rparr>) p = (\<not> isSolid (settings\<lparr>invert := False\<rparr>) p)"
    by (simp add: isSolid_def)
  show "isSolid (settings\<lparr>invert := True\<rparr>) p = (threshold settings \<le> avg p)"
    by (auto simp: isSolid_def)
  show "isSolid (settings\<lparr>invert := False\<rparr>) p = (avg p < threshold settings)"
    by (simp add: isSolid_def)
  show "thresholding (settings\<lparr>invert := True\<rparr>) data =
       map complementPixel (thresholding (settings\<lparr>invert := False\<rparr>) data)"
    by (simp add: thresholding_def thresholdPixel_invert)
  show "length (thresholding settings data) = length data"
    by (simp add: thresholding_def)
next
  fix i assume "i < length data"
  then show "thresholding settings data ! i =
           (if isSolid settings (data ! i) then (0, 0, 0, 255) else (255, 255, 255, 255))"
    by (rule thresholding_nth)
next
  fix i assume i: "i < length data"
  show "(thresholding (settings\<lparr>invert := True\<rparr>) data ! i = (0, 0, 0, 255))
           = (threshold settings \<le> avg (data ! i))"
    using i by (auto simp: thresholding_nth isSolid_def)
  show "(thresholding (settings\<lparr>invert := False\<rparr>) data ! i = (0, 0, 0, 255))
           = (avg (data ! i) < threshold settings)"
    using i by (auto simp: thresholding_nth isSolid_def)
  show "(thresholding (settings\<lparr>invert := True\<rparr>) data ! i = (0, 0, 0, 255))
           = (thresholding (settings\<lparr>invert := False\<rparr>) data ! i = (255, 255, 255, 255))"
    using i by (auto simp: thresholding_nth isSolid_def)
qed

theorem C10_invert_complement_witness:
  "thresholding (defaultSettings\<lparr>invert := False\<rparr>) exampleData =
     [(0, 0, 0, 255), (255, 255, 255, 255)]
   \<and> thresholding (defaultSettings\<lparr>invert := True\<rparr>) exampleData =
     [(255, 255, 255, 255), (0, 0, 0, 255)]
   \<and> avg (exampleData ! 0) = 10 \<and> avg (exampleData ! 1) = 250
   \<and> threshold defaultSettings = 160"
proof -
  have n: "length exampleData = 2" by (simp add: exampleData_def)
  have a: "avg (exampleData ! 0) = 10" "avg (exampleData ! 1) = 250"
    by (simp_all add: exampleData_def)
  have t: "threshold defaultSettings = 160" by (simp add: defaultSettings_def)
  have s: "isSolid (defaultSettings\<lparr>invert := False\<rparr>) (exampleData ! 0)"
    "\<not> isSolid (defaultSettings\<lparr>invert := False\<rparr>) (exampleData ! 1)"
    using C10_invert_complement[of defaultSettings "exampleData ! 0" exampleData]
          C10_invert_complement[of defaultSettings "exampleData ! 1" exampleData] a t
    by simp_all
  have l: "length (thresholding (defaultSettings\<lparr>invert := False\<rparr>) exampleData) = 2"
    using C10_invert_complement[of "defaultSettings\<lparr>invert := False\<rparr>" "exampleData ! 0" exampleData] n by simp
  have p: "thresholding (defaultSettings\<lparr>invert := False\<rparr>) exampleData ! 0 = (0, 0, 0, 255)"
    "thresholding (defaultSettings\<lparr>invert := False\<rparr>) exampleData ! 1 = (255, 255, 255, 255)"
    using C10_invert_complement[of "defaultSettings\<lparr>invert := False\<rparr>" "exampleData ! 0" exampleData] n s
    by simp_all
  have f: "thresholding (defaultSettings\<lparr>invert := False\<rparr>) exampleData =
     [(0, 0, 0, 255), (255, 255, 255, 255)]"
    using l p by (intro nth_equalityI) (auto simp: less_Suc_eq numeral_2_eq_2)
  have "thresholding (defaultSettings\<lparr>invert := True\<rparr>) exampleData =
      map complementPixel (thresholding (defaultSettings\<lparr>invert := False\<rparr>) exampleData)"
    using C10_invert_complement[of defaultSettings "exampleData ! 0" exampleData] by simp
  then have g: "thresholding (defaultSettings\<lparr>invert := True\<rparr>) exampleData =
     [(255, 255, 255, 255), (0, 0, 0, 255)]"
    by (simp add: f complementPixel_def)
  show ?thesis using f g a t by simp
qed

subsection \<open>The largest shape\<close>

lemma fold_largestStep:
  "(\<forall>x\<in>set xs. unsignedArea x \<le> m) \<Longrightarrow> fold largestStep xs (b, m) = (b, m)"
  "\<not> (\<forall>x\<in>set xs. unsignedArea x \<le> m) \<Longrightarrow>
     \<exists>i<length xs. fold largestStep xs (b, m) = (xs ! i, unsignedArea (xs ! i)) \<and> m < unsignedArea (xs ! i)
        \<and> (\<forall>j<length xs. unsignedArea (xs ! j) \<le> unsignedArea (xs ! i))
        \<and> (\<forall>j<i. unsignedArea (xs ! j) < unsignedArea (xs ! i))"
proof (induction xs arbitrary: b m)
  case Nil
  { case 1 show ?case by simp }
  { case 2 then show ?case by simp }
next
  case (Cons x xs)
  { case 1
    then show ?case using Cons.IH(1)[of m b] by (simp add: largestStep_def Let_def) }
  { case 2
    show ?case
    proof (cases "unsignedArea x > m")
      case True
      then have step: "largestStep x (b, m) = (x, unsignedArea x)"
        by (simp add: largestStep_def Let_def)
      show ?thesis
      proof (cases "\<forall>y\<in>set xs. unsignedArea y \<le> unsignedArea x")
        case all: True
        have "fold largestStep (x # xs) (b, m) = (x, unsignedArea x)"
          using Cons.IH(1)[OF all] step by simp
        moreover have "\<forall>j<length (x # xs). unsignedArea ((x # xs) ! j) \<le> unsignedArea x"
          using all by (auto simp: nth_Cons split: nat.splits)
        ultimately show ?thesis using True
          by (intro exI[of _ 0]) simp
      next
        case False
        from Cons.IH(2)[OF False, of x] obtain i where i: "i < length xs"
          "fold largestStep xs (x, unsignedArea x) = (xs ! i, unsignedArea (xs ! i))"
          "unsignedArea x < unsignedArea (xs ! i)"
          "\<forall>j<length xs. unsignedArea (xs ! j) \<le> unsignedArea (xs ! i)"
          "\<forall>j<i. unsignedArea (xs ! j) < unsignedArea (xs ! i)" by blast
        show ?thesis
          using i True step
          by (intro exI[of _ "Suc i"]) (auto simp: nth_Cons less_Suc_eq_0_disj split: nat.splits)
      qed
    next
      case False
      then have step: "largestStep x (b, m) = (b, m)"
        by (simp add: largestStep_def Let_def)
      from False 2 have ne: "\<not> (\<forall>y\<in>set xs. unsignedArea y \<le> m)" by auto
      from Cons.IH(2)[OF ne, of b] obtain i where i: "i < length xs"
          "fold largestStep xs (b, m) = (xs ! i, unsignedArea (xs ! i))"
          "m < unsignedArea (xs ! i)"
          "\<forall>j<length xs. unsignedArea (xs ! j) \<le> unsignedArea (xs ! i)"
          "\<forall>j<i. unsignedArea (xs ! j) < unsignedArea (xs ! i)" by blast
      show ?thesis
        using i False step
        by (intro exI[of _ "Suc i"]) (auto simp: nth_Cons less_Suc_eq_0_disj split: nat.splits)
    qed }
qed

text \<open>
  C3. For the empty set of traced shapes the selection returns no shape. For a non-empty
  set it returns the shape at some index i whose unsigned polygon area is maximal (no
  shape has a larger one), and every shape before i has a strictly smaller area: among
  shapes of equal maximal area the first in traversal order is returned.
\<close>

theorem C3_largestShape:
  "largestShape [] = None \<and>
   (shapes \<noteq> [] \<longrightarrow>
     (\<exists>i<length shapes. largestShape shapes = Some (shapes ! i)
        \<and> (\<forall>j<length shapes. unsignedArea (shapes ! j) \<le> unsignedArea (shapes ! i))
        \<and> (\<forall>j<i. unsignedArea (shapes ! j) < unsignedArea (shapes ! i))))"
proof (intro conjI impI)
  show "largestShape [] = None" by (simp add: largestShape_def)
next
  assume ne: "shapes \<noteq> []"
  show "\<exists>i<length shapes. largestShape shapes = Some (shapes ! i)
        \<and> (\<forall>j<length shapes. unsignedArea (shapes ! j) \<le> unsignedArea (shapes ! i))
        \<and> (\<forall>j<i. unsignedArea (shapes ! j) < unsignedArea (shapes ! i))"
  proof (cases "\<forall>x\<in>set shapes. unsignedArea x \<le> 0")
    case True
    then have "fold largestStep shapes (shapes ! 0, 0) = (shapes ! 0, 0)"
      by (rule fold_largestStep(1))
    moreover have "\<forall>j<length shapes. unsignedArea (shapes ! j) = 0"
      using True by (auto dest!: nth_mem)
    ultimately show ?thesis using ne
      by (intro exI[of _ 0]) (simp add: largestShape_def)
  next
    case False
    from fold_largestStep(2)[OF False, of "shapes ! 0"] show ?thesis
      using ne by (auto simp: largestShape_def)
  qed
qed

theorem C3_largestShape_witness:
  "[squareShape 0 0 1, squareShape 5 0 2, squareShape 9 9 2] \<noteq> [] \<and>
   largestShape [squareShape 0 0 1, squareShape 5 0 2, squareShape 9 9 2] = Some (squareShape 5 0 2)"
proof -
  let ?S = "[squareShape 0 0 1, squareShape 5 0 2, squareShape 9 9 2]"
  have a: "unsignedArea (?S ! 0) = 1" "unsignedArea (?S ! 1) = 4" "unsignedArea (?S ! 2) = 4"
    by (simp_all add: squareShape_def area_def)
  have ne: "?S \<noteq> []" by simp
  from C3_largestShape[of ?S] ne
  have "\<exists>i<length ?S. largestShape ?S = Some (?S ! i)
        \<and> (\<forall>j<length ?S. unsignedArea (?S ! j) \<le> unsignedArea (?S ! i))
        \<and> (\<forall>j<i. unsignedArea (?S ! j) < unsignedArea (?S ! i))" by blast
  then obtain i where i: "i < length ?S" "largestShape ?S = Some (?S ! i)"
    "\<forall>j<length ?S. unsignedArea (?S ! j) \<le> unsignedArea (?S ! i)"
    "\<forall>j<i. unsignedArea (?S ! j) < unsignedArea (?S ! i)" by blast
  have "i \<noteq> 0"
  proof
    assume "i = 0"
    with i(3)[rule_format, of 1] have "unsignedArea (?S ! 1) \<le> unsignedArea (?S ! 0)" by simp
    with a show False by simp
  qed
  moreover have "i \<noteq> 2"
  proof
    assume "i = 2"
    with i(4)[rule_format, of 1] have "unsignedArea (?S ! 1) < unsignedArea (?S ! 2)" by simp
    with a show False by simp
  qed
  moreover from i(1) have "i < 3" by simp
  ultimately have "i = 1" by linarith
  with i(2) show ?thesis by simp
qed

subsection \<open>The hole of the outline wall\<close>

text \<open>The shoelace sum of the contour scaled towards a point is the square of the factor
  times the shoelace sum of the contour: the terms that are linear in the fixed point
  telescope around the cycle.\<close>

lemma areaLoop_acc: "areaLoop a p qs = a + areaLoop 0 p qs"
proof (induction qs arbitrary: a p)
  case Nil
  show ?case by simp
next
  case (Cons q qs)
  show ?case
    using Cons.IH[of "a + (fst p * snd q - fst q * snd p)" q]
          Cons.IH[of "fst p * snd q - fst q * snd p" q]
    by simp
qed

lemma areaLoop_holePoints:
  "areaLoop 0 (cx + (fst p - cx) * s, cy + (snd p - cy) * s) (holePoints s (cx, cy) qs) =
     s * s * areaLoop 0 p qs
     + s * (cy * (1 - s)) * (fst p - fst (last (p # qs)))
     + s * (cx * (1 - s)) * (snd (last (p # qs)) - snd p)"
proof (induction qs arbitrary: p)
  case Nil
  show ?case by (simp add: holePoints_def)
next
  case (Cons q qs)
  have hp: "holePoints s (cx, cy) (q # qs) =
      (cx + (fst q - cx) * s, cy + (snd q - cy) * s) # holePoints s (cx, cy) qs"
    by (simp add: holePoints_def)
  show ?case
    unfolding hp areaLoop.simps
    apply (subst areaLoop_acc)
    apply (subst areaLoop_acc[of _ q qs])
    apply (subst Cons.IH)
    apply (simp add: algebra_simps)
    done
qed

lemma area_holePoints: "area (holePoints s c points) = s * s * area points"
proof (cases points rule: rev_cases)
  case Nil
  then show ?thesis by (simp add: area_def holePoints_def split: prod.splits)
next
  case (snoc ys y)
  obtain cx cy where c: "c = (cx, cy)" by (cases c)
  have l: "last (holePoints s (cx, cy) points) = (cx + (fst y - cx) * s, cy + (snd y - cy) * s)"
    using snoc by (simp add: holePoints_def)
  have ne: "holePoints s (cx, cy) points \<noteq> []" using snoc by (simp add: holePoints_def)
  have "areaLoop 0 (last (holePoints s (cx, cy) points)) (holePoints s (cx, cy) points)
        = s * s * areaLoop 0 y points"
    unfolding l using areaLoop_holePoints[of cx y s cy points] snoc by simp
  then show ?thesis using ne snoc c by (simp add: area_def)
qed

lemma closePoints_Nil_iff: "closePoints points = [] \<longleftrightarrow> points = []"
  by (simp add: closePoints_def)

text \<open>
  C2. For shape = outline, a silhouette with at least one point and width > 0, the wall is
  the extrusion of the closed outer contour with one hole, the hole being the image of
  every point p of the closed contour under p \<mapsto> centroid + (p - centroid) * s with
  s = max(0.5, 1 - 2 * frameThickness / width). The factor satisfies 0.5 \<le> s, the
  unsigned area inside the hole contour is s * s times the unsigned area inside the outer
  contour (so at least a quarter of it), and it is strictly smaller whenever s < 1 and
  the outer contour encloses a non-zero area, as a silhouette does.
\<close>

theorem C2_hole:
  assumes "shape settings = Outline" and "getPoints sh \<noteq> []" and "0 < width settings"
  shows "let points = closePoints (getPoints sh);
             s = max 0.5 (1 - 2 * frameThickness settings / width settings);
             hole = (case centroid points of (cx, cy) \<Rightarrow>
                       map (\<lambda>p. (cx + (fst p - cx) * s, cy + (snd p - cy) * s)) points)
         in createCutterFrame settings (Some sh) =
              Inr (translateGeometry 0 0 (- baseThickness settings)
                     (ExtrudeGeometry [\<lparr>getPoints = points, holes = [hole]\<rparr>]
                        (frameHeight settings + baseThickness settings)))
            \<and> 0.5 \<le> s
            \<and> \<bar>area hole\<bar> = s * s * \<bar>area points\<bar>
            \<and> (s < 1 \<and> area points \<noteq> 0 \<longrightarrow> \<bar>area hole\<bar> < \<bar>area points\<bar>)"
proof -
  define points where "points = closePoints (getPoints sh)"
  define s where "s = max 0.5 (1 - 2 * frameThickness settings / width settings)"
  define hole where "hole = (case centroid points of (cx, cy) \<Rightarrow>
                       map (\<lambda>p. (cx + (fst p - cx) * s, cy + (snd p - cy) * s)) points)"
  have s: "s = holeScale settings" by (simp add: s_def holeScale_def)
  have hole: "hole = holePoints s (centroid points) points"
    by (simp add: hole_def holePoints_def)
  have ne: "points \<noteq> []" using assms(2) by (simp add: points_def closePoints_Nil_iff)
  have frame: "createCutterFrame settings (Some sh) =
              Inr (translateGeometry 0 0 (- baseThickness settings)
                     (ExtrudeGeometry [\<lparr>getPoints = points, holes = [hole]\<rparr>]
                        (frameHeight settings + baseThickness settings)))"
    using assms(1) ne by (simp add: createCutterFrame_def Let_def points_def[symmetric] s hole)
  have ge: "0.5 \<le> s" by (simp add: s_def)
  have ar: "\<bar>area hole\<bar> = s * s * \<bar>area points\<bar>"
    by (simp add: hole area_holePoints abs_mult)
  have lt: "\<bar>area hole\<bar> < \<bar>area points\<bar>" if "s < 1" "area points \<noteq> 0"
  proof -
    have "0 < s" using ge by simp
    with that(1) have "s * s < 1 * 1" by (intro mult_strict_mono) simp_all
    moreover have "0 < \<bar>area points\<bar>" using that(2) by simp
    ultimately have "s * s * \<bar>area points\<bar> < 1 * \<bar>area points\<bar>"
      by (intro mult_strict_right_mono) simp_all
    with ar show ?thesis by simp
  qed
  show ?thesis
    unfolding Let_def points_def[symmetric] s_def[symmetric] hole_def[symmetric]
    using frame ge ar lt by blast
qed

theorem C2_hole_witness:
  "shape defaultSettings = Outline \<and> getPoints (squareShape 0 0 1) \<noteq> []
   \<and> 0 < width defaultSettings
   \<and> createCutterFrame defaultSettings (Some (squareShape 0 0 1)) =
       Inr (translateGeometry 0 0 (- 2)
              (ExtrudeGeometry
                 [\<lparr>getPoints = [(0, 0), (1, 0), (1, 1), (0, 1), (0, 0)],
                   holes = [[(4 / 225, 4 / 225), (219 / 225, 4 / 225), (219 / 225, 219 / 225),
                             (4 / 225, 219 / 225), (4 / 225, 4 / 225)]]\<rparr>] 10))
   \<and> \<bar>area [(4 / 225, 4 / 225), (219 / 225, 4 / 225), (219 / 225, 219 / 225),
               (4 / 225, 219 / 225), (4 / 225, 4 / 225 :: real)]\<bar>
       < \<bar>area [(0, 0), (1, 0), (1, 1), (0, 1), (0, 0 :: real)]\<bar>"
proof -
  have h: "shape defaultSettings = Outline" "getPoints (squareShape 0 0 1) \<noteq> []"
    "0 < width defaultSettings"
    by (simp_all add: defaultSettings_def squareShape_def)
  have c: "centroid [(0, 0), (1, 0), (1, 1), (0, 1), (0, 0)] = (2 / 5, 2 / 5)"
    by (simp add: centroid_def)
  have a: "area [(0, 0), (1, 0), (1, 1), (0, 1), (0, 0)] = 1"
    by (simp add: area_def)
  show ?thesis
    using h C2_hole[OF h] c a
    by (simp add: Let_def defaultSettings_def squareShape_def closePoints_def)
qed

subsection \<open>The branches of createBasePlate and createCutterFrame\<close>

lemma length_ring: "length (ring r y n) = n + 1"
  by (simp add: ring_def)

lemma length_CylinderGeometry: "8 < length (CylinderGeometry rt rb h 64)"
  by (simp add: CylinderGeometry_def Let_def length_ring)

lemma length_BoxGeometry: "length (BoxGeometry w h d) = 8"
  by (simp add: BoxGeometry_def)

lemma length_translateGeometry: "length (translateGeometry tx ty tz g) = length g"
  by (simp add: translateGeometry_def)

lemma length_rotateX: "length (rotateX a g) = length g"
  by (simp add: rotateX_def)

lemma length_absarc: "length (absarc x y r cw) = 25"
  by (simp add: absarc_def)

lemma length_ExtrudeGeometry_single:
  "length (ExtrudeGeometry [sh] d) = 2 * (length (getPoints sh) + length (concat (holes sh)))"
  by (simp add: ExtrudeGeometry_def extrudeShape_def contourPoints_def)

lemma circle_point: "(r * cos t)\<^sup>2 + (r * sin t)\<^sup>2 = (r::real)\<^sup>2"
proof -
  have "(r * cos t)\<^sup>2 + (r * sin t)\<^sup>2 = r\<^sup>2 * ((cos t)\<^sup>2 + (sin t)\<^sup>2)"
    by (simp only: power_mult_distrib distrib_left)
  also have "\<dots> = r\<^sup>2" by simp
  finally show ?thesis .
qed

lemma absarc_radius: "p \<in> set (absarc 0 0 r cw) \<Longrightarrow> (fst p)\<^sup>2 + (snd p)\<^sup>2 = r\<^sup>2"
  by (auto simp: absarc_def Let_def circle_point)

lemma ring_radius: "v \<in> set (ring r y n) \<Longrightarrow> (vx v)\<^sup>2 + (vz v)\<^sup>2 = r\<^sup>2 \<and> vy v = y"
  using circle_point[of r] by (auto simp: ring_def Let_def add.commute)

lemma CylinderGeometry_vertex:
  assumes "v \<in> set (CylinderGeometry r r h n)"
  shows "((vx v)\<^sup>2 + (vz v)\<^sup>2 = r\<^sup>2 \<or> (vx v = 0 \<and> vz v = 0)) \<and> (vy v = h / 2 \<or> vy v = - h / 2)"
  using assms by (auto simp: CylinderGeometry_def Let_def dest: ring_radius split: if_splits)

lemma basePlate_circle:
  "shape settings \<noteq> Rectangle \<Longrightarrow> createBasePlate settings None =
     translateGeometry 0 0 (- baseThickness settings / 2)
       (rotateX (pi / 2)
          (CylinderGeometry (width settings / 2) (width settings / 2) (baseThickness settings) 64))"
  by (cases "shape settings") (simp_all add: createBasePlate_def Let_def)

lemma basePlate_rectangle:
  "shape settings = Rectangle \<Longrightarrow> createBasePlate settings outlineShape =
     translateGeometry 0 0 (- baseThickness settings / 2)
       (BoxGeometry (width settings) (height settings) (baseThickness settings))"
  by (cases outlineShape) (simp_all add: createBasePlate_def Let_def)

lemma cutterFrame_circle:
  "shape settings \<noteq> Rectangle \<Longrightarrow> createCutterFrame settings None =
     Inr (translateGeometry 0 0 (- baseThickness settings)
            (ExtrudeGeometry
               [\<lparr>getPoints = absarc 0 0 (width settings / 2 + frameThickness settings) False,
                 holes = [absarc 0 0 (width settings / 2) True]\<rparr>]
               (frameHeight settings + baseThickness settings)))"
  by (cases "shape settings") (simp_all add: createCutterFrame_def Let_def circleFrameShape_def)

lemma cutterFrame_rectangle:
  "shape settings = Rectangle \<Longrightarrow> createCutterFrame settings outlineShape =
     Inr (translateGeometry 0 0 (- baseThickness settings)
            (ExtrudeGeometry
               [rectangleFrameShape (width settings / 2) (height settings / 2)
                  (frameThickness settings)]
               (frameHeight settings + baseThickness settings)))"
  by (cases outlineShape) (simp_all add: createCutterFrame_def Let_def)

lemma basePlate_box_iff:
  "createBasePlate st None =
     translateGeometry 0 0 (- baseThickness st / 2)
       (BoxGeometry (width st) (height st) (baseThickness st))
   \<longleftrightarrow> shape st = Rectangle"
proof
  assume eq: "createBasePlate st None =
     translateGeometry 0 0 (- baseThickness st / 2)
       (BoxGeometry (width st) (height st) (baseThickness st))"
  show "shape st = Rectangle"
  proof (rule ccontr)
    assume "shape st \<noteq> Rectangle"
    from basePlate_circle[OF this] eq
    have "length (CylinderGeometry (width st / 2) (width st / 2) (baseThickness st) 64) = 8"
      by (metis length_BoxGeometry length_rotateX length_translateGeometry)
    with length_CylinderGeometry[of "width st / 2" "width st / 2" "baseThickness st"]
    show False by simp
  qed
next
  assume "shape st = Rectangle"
  then show "createBasePlate st None =
     translateGeometry 0 0 (- baseThickness st / 2)
       (BoxGeometry (width st) (height st) (baseThickness st))"
    by (rule basePlate_rectangle)
qed

lemma cutterFrame_rectangle_iff:
  "createCutterFrame st None =
     Inr (translateGeometry 0 0 (- baseThickness st)
            (ExtrudeGeometry
               [rectangleFrameShape (width st / 2) (height st / 2) (frameThickness st)]
               (frameHeight st + baseThickness st)))
   \<longleftrightarrow> shape st = Rectangle"
proof
  assume eq: "createCutterFrame st None =
     Inr (translateGeometry 0 0 (- baseThickness st)
            (ExtrudeGeometry
               [rectangleFrameShape (width st / 2) (height st / 2) (frameThickness st)]
               (frameHeight st + baseThickness st)))"
  show "shape st = Rectangle"
  proof (rule ccontr)
    assume "shape st \<noteq> Rectangle"
    from cutterFrame_circle[OF this] eq
    have "length (ExtrudeGeometry
               [\<lparr>getPoints = absarc 0 0 (width st / 2 + frameThickness st) False,
                 holes = [absarc 0 0 (width st / 2) True]\<rparr>]
               (frameHeight st + baseThickness st)) =
          length (ExtrudeGeometry
               [rectangleFrameShape (width st / 2) (height st / 2) (frameThickness st)]
               (frameHeight st + baseThickness st))"
      by (metis length_translateGeometry sum.inject(2))
    then show False
      by (simp add: length_ExtrudeGeometry_single length_absarc rectangleFrameShape_def)
  qed
next
  assume "shape st = Rectangle"
  then show "createCutterFrame st None =
     Inr (translateGeometry 0 0 (- baseThickness st)
            (ExtrudeGeometry
               [rectangleFrameShape (width st / 2) (height st / 2) (frameThickness st)]
               (frameHeight st + baseThickness st)))"
    by (rule cutterFrame_rectangle)
qed

lemma basePlate_circle_vertex:
  assumes "shape settings \<noteq> Rectangle" and "v \<in> set (createBasePlate settings None)"
  shows "(vx v)\<^sup>2 + (vy v)\<^sup>2 = (width settings / 2)\<^sup>2 \<or> (vx v = 0 \<and> vy v = 0)"
proof -
  from assms obtain u where u: "u \<in> set (CylinderGeometry (width settings / 2)
      (width settings / 2) (baseThickness settings) 64)"
    and v: "vx v = vx u" "vy v = - vz u"
    unfolding basePlate_circle[OF assms(1)]
    by (auto simp: translateGeometry_def rotateX_def)
  from CylinderGeometry_vertex[OF u] v show ?thesis by auto
qed

text \<open>
  C9. With shape = outline and no silhouette shape, createBasePlate returns the cylinder
  of radius width / 2 (diameter width) and thickness baseThickness, every vertex of which
  lies on the circle of radius width / 2 around the build axis or on the axis; and
  createCutterFrame returns the extruded ring whose outer contour lies on the circle of
  radius width / 2 + frameThickness and whose hole lies on the circle of radius
  width / 2. The box and the rectangular frame are returned, without a silhouette, exactly
  when shape = rectangle.
\<close>

theorem C9_outline_without_silhouette:
  assumes "shape settings = Outline"
  shows "createBasePlate settings None =
           translateGeometry 0 0 (- baseThickness settings / 2)
             (rotateX (pi / 2)
                (CylinderGeometry (width settings / 2) (width settings / 2)
                   (baseThickness settings) 64))
       \<and> (\<forall>v\<in>set (createBasePlate settings None).
             (vx v)\<^sup>2 + (vy v)\<^sup>2 = (width settings / 2)\<^sup>2 \<or> (vx v = 0 \<and> vy v = 0))
       \<and> createCutterFrame settings None =
           Inr (translateGeometry 0 0 (- baseThickness settings)
                  (ExtrudeGeometry
                     [\<lparr>getPoints = absarc 0 0 (width settings / 2 + frameThickness settings) False,
                       holes = [absarc 0 0 (width settings / 2) True]\<rparr>]
                     (frameHeight settings + baseThickness settings)))
       \<and> (\<forall>p\<in>set (absarc 0 0 (width settings / 2 + frameThickness settings) False).
             (fst p)\<^sup>2 + (snd p)\<^sup>2 = (width settings / 2 + frameThickness settings)\<^sup>2)
       \<and> (\<forall>p\<in>set (absarc 0 0 (width settings / 2) True).
             (fst p)\<^sup>2 + (snd p)\<^sup>2 = (width settings / 2)\<^sup>2)
       \<and> (\<forall>st. createBasePlate st None =
                  translateGeometry 0 0 (- baseThickness st / 2)
                    (BoxGeometry (width st) (height st) (baseThickness st))
                \<longleftrightarrow> shape st = Rectangle)
       \<and> (\<forall>st. createCutterFrame st None =
                  Inr (translateGeometry 0 0 (- baseThickness st)
                         (ExtrudeGeometry
                            [rectangleFrameShape (width st / 2) (height st / 2)
                               (frameThickness st)]
                            (frameHeight st + baseThickness st)))
                \<longleftrightarrow> shape st = Rectangle)"
proof -
  have nr: "shape settings \<noteq> Rectangle" using assms by simp
  show ?thesis
    using basePlate_circle[OF nr] cutterFrame_circle[OF nr] basePlate_circle_vertex[OF nr]
      absarc_radius basePlate_box_iff cutterFrame_rectangle_iff
    by blast
qed

theorem C9_outline_without_silhouette_witness:
  "shape defaultSettings = Outline
   \<and> createBasePlate defaultSettings None =
       translateGeometry 0 0 (- 1) (rotateX (pi / 2) (CylinderGeometry 45 45 2 64))
   \<and> createCutterFrame defaultSettings None =
       Inr (translateGeometry 0 0 (- 2)
              (ExtrudeGeometry
                 [\<lparr>getPoints = absarc 0 0 47 False, holes = [absarc 0 0 45 True]\<rparr>] 10))"
proof -
  have h: "shape defaultSettings = Outline" by (simp add: defaultSettings_def)
  show ?thesis
    using h C9_outline_without_silhouette[OF h] by (simp add: defaultSettings_def)
qed

subsection \<open>The build axis\<close>

lemma vz_translateGeometry:
  "vz ` set (translateGeometry tx ty tz g) = (\<lambda>z. z + tz) ` vz ` set g"
  by (force simp: translateGeometry_def image_iff)

lemma vz_ExtrudeGeometry_single:
  assumes "getPoints sh \<noteq> []"
  shows "vz ` set (ExtrudeGeometry [sh] depth) = {0, depth}"
proof -
  from assms obtain p ps where "contourPoints sh = p # ps"
    by (cases "getPoints sh") (auto simp: contourPoints_def)
  then show ?thesis
    by (auto simp: ExtrudeGeometry_def extrudeShape_def image_iff split: prod.splits)
qed

lemma vz_BoxGeometry: "vz ` set (BoxGeometry w h d) = {- d / 2, d / 2}"
  by (auto simp: BoxGeometry_def)

lemma vy_ring: "vy ` set (ring r y n) = {y}"
  by (auto simp: ring_def Let_def image_iff intro: bexI[of _ 0])

lemma vy_CylinderGeometry: "vy ` set (CylinderGeometry rt rb h n) = {h / 2, - h / 2}"
proof -
  have s: "set (CylinderGeometry rt rb h n) =
      set (ring rt (h / 2) n) \<union> set (ring rb (- (h / 2)) n)
      \<union> (if rt > 0 then {(0, h / 2, 0)} else {}) \<union> (if rb > 0 then {(0, - (h / 2), 0)} else {})"
    by (auto simp: CylinderGeometry_def Let_def)
  show ?thesis unfolding s image_Un vy_ring by auto
qed

lemma vz_rotateX_quarter: "vz ` set (rotateX (pi / 2) g) = vy ` set g"
  by (force simp: rotateX_def image_iff)

lemma vz_createBasePlate:
  assumes "\<And>sh. outlineShape = Some sh \<Longrightarrow> getPoints sh \<noteq> []"
  shows "vz ` set (createBasePlate settings outlineShape) = {- baseThickness settings, 0}"
proof (cases "shape settings = Outline \<and> outlineShape \<noteq> None")
  case True
  then obtain sh where sh: "outlineShape = Some sh" by auto
  with True assms[OF sh] show ?thesis
    by (auto simp: createBasePlate_def Let_def vz_translateGeometry vz_ExtrudeGeometry_single)
next
  case False
  then have "createBasePlate settings outlineShape =
     (if shape settings = Rectangle
             then translateGeometry 0 0 (- baseThickness settings / 2)
                    (BoxGeometry (width settings) (height settings) (baseThickness settings))
             else translateGeometry 0 0 (- baseThickness settings / 2)
                       (rotateX (pi / 2) (CylinderGeometry (width settings / 2) (width settings / 2) (baseThickness settings) 64)))"
    by (cases "shape settings"; cases outlineShape) (simp_all add: createBasePlate_def Let_def)
  then show ?thesis
    by (auto simp: vz_translateGeometry vz_BoxGeometry vz_rotateX_quarter vy_CylinderGeometry)
qed

lemma absarc_ne: "absarc x y r cw \<noteq> []"
  by (simp add: absarc_def upt_conv_Cons)

lemma vz_createCutterFrame:
  assumes "\<And>sh. outlineShape = Some sh \<Longrightarrow> getPoints sh \<noteq> []"
  shows "\<exists>g. createCutterFrame settings outlineShape = Inr g
           \<and> vz ` set g = {- baseThickness settings, frameHeight settings}"
proof (cases "shape settings = Outline \<and> outlineShape \<noteq> None")
  case True
  then obtain sh where sh: "outlineShape = Some sh" by auto
  have ne: "closePoints (getPoints sh) \<noteq> []" using assms[OF sh] by (simp add: closePoints_def)
  with True sh show ?thesis
    by (auto simp: createCutterFrame_def Let_def vz_translateGeometry vz_ExtrudeGeometry_single)
next
  case False
  then have "createCutterFrame settings outlineShape =
     Inr (translateGeometry 0 0 (- baseThickness settings)
                       (ExtrudeGeometry [if shape settings = Rectangle
                           then rectangleFrameShape (width settings / 2) (height settings / 2) (frameThickness settings)
                           else circleFrameShape (width settings / 2) (frameThickness settings)]
                       (frameHeight settings + baseThickness settings)))"
    by (cases "shape settings"; cases outlineShape) (simp_all add: createCutterFrame_def Let_def)
  moreover have "getPoints (if shape settings = Rectangle
                           then rectangleFrameShape (width settings / 2) (height settings / 2) (frameThickness settings)
                           else circleFrameShape (width settings / 2) (frameThickness settings)) \<noteq> []"
    by (simp add: rectangleFrameShape_def circleFrameShape_def Let_def absarc_ne)
  ultimately show ?thesis
    by (auto simp: vz_translateGeometry vz_ExtrudeGeometry_single)
qed

text \<open>
  C5. For every CutterSettings and every shape kind, with or without a silhouette (a
  silhouette having at least one point), the z coordinates of the vertices of the base
  plate are exactly - baseThickness and 0, so that for a non-negative baseThickness the
  plate occupies [- baseThickness, 0] with its top face at z = 0; and createCutterFrame
  returns a geometry whose z coordinates are exactly - baseThickness and frameHeight, so
  that for a non-negative total height frameHeight + baseThickness the wall occupies
  [- baseThickness, frameHeight].
\<close>

theorem C5_build_axis:
  assumes "\<forall>sh. outlineShape = Some sh \<longrightarrow> getPoints sh \<noteq> []"
  shows "vz ` set (createBasePlate settings outlineShape) = {- baseThickness settings, 0}
       \<and> (0 \<le> baseThickness settings \<longrightarrow>
            (\<forall>v\<in>set (createBasePlate settings outlineShape).
               - baseThickness settings \<le> vz v \<and> vz v \<le> 0))
       \<and> (\<exists>g. createCutterFrame settings outlineShape = Inr g
             \<and> vz ` set g = {- baseThickness settings, frameHeight settings}
             \<and> (0 \<le> frameHeight settings + baseThickness settings \<longrightarrow>
                  (\<forall>v\<in>set g. - baseThickness settings \<le> vz v \<and> vz v \<le> frameHeight settings)))"
proof -
  have a: "\<And>sh. outlineShape = Some sh \<Longrightarrow> getPoints sh \<noteq> []" using assms by blast
  have b: "vz ` set (createBasePlate settings outlineShape) = {- baseThickness settings, 0}"
    using a by (rule vz_createBasePlate)
  obtain g where g: "createCutterFrame settings outlineShape = Inr g"
    "vz ` set g = {- baseThickness settings, frameHeight settings}"
    using vz_createCutterFrame[of outlineShape settings] a by blast
  have b2: "- baseThickness settings \<le> vz v \<and> vz v \<le> 0"
    if "0 \<le> baseThickness settings" "v \<in> set (createBasePlate settings outlineShape)" for v
  proof -
    from that(2) have "vz v \<in> {- baseThickness settings, 0}" using b by blast
    with that(1) show ?thesis by auto
  qed
  have g2: "- baseThickness settings \<le> vz v \<and> vz v \<le> frameHeight settings"
    if "0 \<le> frameHeight settings + baseThickness settings" "v \<in> set g" for v
  proof -
    from that(2) have "vz v \<in> {- baseThickness settings, frameHeight settings}" using g(2) by blast
    with that(1) show ?thesis by auto
  qed
  show ?thesis
  proof (intro conjI impI ballI)
    show "vz ` set (createBasePlate settings outlineShape) = {- baseThickness settings, 0}"
      by (rule b)
  next
    fix v assume "0 \<le> baseThickness settings" "v \<in> set (createBasePlate settings outlineShape)"
    then show "- baseThickness settings \<le> vz v" "vz v \<le> 0" using b2 by blast+
  next
    show "\<exists>g. createCutterFrame settings outlineShape = Inr g
             \<and> vz ` set g = {- baseThickness settings, frameHeight settings}
             \<and> (0 \<le> frameHeight settings + baseThickness settings \<longrightarrow>
                  (\<forall>v\<in>set g. - baseThickness settings \<le> vz v \<and> vz v \<le> frameHeight settings))"
      using g g2 by (intro exI[of _ g]) blast
  qed
qed

theorem C5_build_axis_witness:
  "getPoints (squareShape 0 0 1) \<noteq> []
   \<and> 0 \<le> baseThickness defaultSettings
   \<and> 0 \<le> frameHeight defaultSettings + baseThickness defaultSettings
   \<and> vz ` set (createBasePlate defaultSettings (Some (squareShape 0 0 1))) = {- 2, 0}
   \<and> (\<exists>g. createCutterFrame defaultSettings (Some (squareShape 0 0 1)) = Inr g
         \<and> vz ` set g = {- 2, 8})"
proof -
  have h: "\<forall>sh. Some (squareShape 0 0 1) = Some sh \<longrightarrow> getPoints sh \<noteq> []"
    by (simp add: squareShape_def)
  have v: "baseThickness defaultSettings = 2" "frameHeight defaultSettings = 8"
    by (simp_all add: defaultSettings_def)
  have ne: "getPoints (squareShape 0 0 1) \<noteq> []" by (simp add: squareShape_def)
  show ?thesis
    using ne C5_build_axis[OF h, of defaultSettings] unfolding v by auto
qed

subsection \<open>The layout of generate: helper facts\<close>

lemma Max_image_mult:
  assumes "finite A" and "A \<noteq> {}" and "0 \<le> (k::real)"
  shows "(MAX x\<in>A. f x * k) = (MAX x\<in>A. f x) * k"
proof -
  have "mono (\<lambda>x::real. x * k)" using assms(3) by (simp add: mono_def mult_right_mono)
  from mono_Max_commute[OF this, of "f ` A"] assms(1,2) show ?thesis
    by (simp add: image_image)
qed

lemma Min_image_mult:
  assumes "finite A" and "A \<noteq> {}" and "0 \<le> (k::real)"
  shows "(MIN x\<in>A. f x * k) = (MIN x\<in>A. f x) * k"
proof -
  have "mono (\<lambda>x::real. x * k)" using assms(3) by (simp add: mono_def mult_right_mono)
  from mono_Min_commute[OF this, of "f ` A"] assms(1,2) show ?thesis
    by (simp add: image_image)
qed

lemma Max_image_add:
  assumes "finite A" and "A \<noteq> {}"
  shows "(MAX x\<in>A. f x + t) = (MAX x\<in>A. f x) + (t::real)"
proof -
  have "mono (\<lambda>x::real. x + t)" by (simp add: mono_def)
  from mono_Max_commute[OF this, of "f ` A"] assms show ?thesis
    by (simp add: image_image)
qed

lemma Min_image_add:
  assumes "finite A" and "A \<noteq> {}"
  shows "(MIN x\<in>A. f x + t) = (MIN x\<in>A. f x) + (t::real)"
proof -
  have "mono (\<lambda>x::real. x + t)" by (simp add: mono_def)
  from mono_Min_commute[OF this, of "f ` A"] assms show ?thesis
    by (simp add: image_image)
qed

lemma vx_scaleGeometry: "map vx (scaleGeometry sx sy sz g) = map (\<lambda>x. x * sx) (map vx g)"
  by (induction g) (auto simp: scaleGeometry_def)

lemma vy_scaleGeometry: "map vy (scaleGeometry sx sy sz g) = map (\<lambda>y. y * sy) (map vy g)"
  by (induction g) (auto simp: scaleGeometry_def)

lemma vx_translateGeometry:
  "map vx (translateGeometry tx ty tz g) = map (\<lambda>x. x + tx) (map vx g)"
  by (induction g) (auto simp: translateGeometry_def)

lemma vy_translateGeometry:
  "map vy (translateGeometry tx ty tz g) = map (\<lambda>y. y + ty) (map vy g)"
  by (induction g) (auto simp: translateGeometry_def)

lemma vx_flipGeometryY: "map vx (flipGeometryY g) = map vx g"
  by (induction g) (auto simp: flipGeometryY_def)

lemma scaleGeometry_Nil_iff: "scaleGeometry sx sy sz g = [] \<longleftrightarrow> g = []"
  by (simp add: scaleGeometry_def)

lemma translateGeometry_Nil_iff: "translateGeometry tx ty tz g = [] \<longleftrightarrow> g = []"
  by (simp add: translateGeometry_def)

lemma flipGeometryY_Nil_iff: "flipGeometryY g = [] \<longleftrightarrow> g = []"
  by (simp add: flipGeometryY_def)

lemma scaleGeometry_one: "scaleGeometry 1 1 1 g = g"
  by (induction g) (auto simp: scaleGeometry_def)

lemma extentX_Some_iff:
  "extentX g = Some w \<longleftrightarrow> g \<noteq> [] \<and> w = Max (set (map vx g)) - Min (set (map vx g))"
  by (auto simp: extentX_def boundingBox_def)

lemma extentY_Some_iff:
  "extentY g = Some h \<longleftrightarrow> g \<noteq> [] \<and> h = Max (set (map vy g)) - Min (set (map vy g))"
  by (auto simp: extentY_def boundingBox_def)

lemma extentX_scaleGeometry:
  assumes "extentX g = Some w" and "0 \<le> k"
  shows "extentX (scaleGeometry k sy sz g) = Some (w * k)"
  using assms
  by (simp add: extentX_Some_iff scaleGeometry_Nil_iff vx_scaleGeometry Max_image_mult
      Min_image_mult left_diff_distrib)

lemma extentY_scaleGeometry:
  assumes "extentY g = Some h" and "0 \<le> k"
  shows "extentY (scaleGeometry sx k sz g) = Some (h * k)"
  using assms
  by (simp add: extentY_Some_iff scaleGeometry_Nil_iff vy_scaleGeometry Max_image_mult
      Min_image_mult left_diff_distrib)

lemma applyGroupScale_eq:
  "applyGroupScale k stampGeo frameGeo baseGeo =
     \<lparr>stampGeometry = scaleGeometry k k 1 stampGeo,
      frameGeometry = scaleGeometry k k 1 frameGeo,
      baseGeometry = scaleGeometry k k 1 baseGeo\<rparr>"
  by (simp add: applyGroupScale_def scaleGeometry_one)

lemma generate_outline:
  assumes "shape settings = Outline"
    and "createCutterFrame settings (Some sil) = Inr frame0"
  shows "generate settings stampGeo (Some sil) =
     Inr \<lparr>stampGeometry =
            scaleGeometry (outlineGroupScale settings (flipGeometryY frame0))
              (outlineGroupScale settings (flipGeometryY frame0)) 1 stampGeo,
          frameGeometry =
            scaleGeometry (outlineGroupScale settings (flipGeometryY frame0))
              (outlineGroupScale settings (flipGeometryY frame0)) 1 (flipGeometryY frame0),
          baseGeometry =
            scaleGeometry (outlineGroupScale settings (flipGeometryY frame0))
              (outlineGroupScale settings (flipGeometryY frame0)) 1
              (flipGeometryY (createBasePlate settings (Some sil)))\<rparr>"
  using assms by (simp add: generate_def Let_def applyGroupScale_eq)

lemma exampleStamp_eq:
  "exampleStamp = [(200, - 300, 0), (300, - 300, 0), (300, - 400, 0), (200, - 400, 0),
                   (200, - 300, 7 / 2), (300, - 300, 7 / 2), (300, - 400, 7 / 2), (200, - 400, 7 / 2)]"
  by (simp add: exampleStamp_def stampFromShapes_def squareShape_def defaultSettings_def
      BufferGeometry_def scaleGeometry_def ExtrudeGeometry_def extrudeShape_def contourPoints_def)

lemma tallFrame_createCutterFrame:
  "createCutterFrame defaultSettings (Some tallSilhouette) = Inr tallFrame"
  by (simp add: createCutterFrame_def defaultSettings_def tallSilhouette_def closePoints_def
      holeScale_def centroid_def holePoints_def translateGeometry_def ExtrudeGeometry_def
      extrudeShape_def contourPoints_def Let_def tallFrame_def)

lemma tallBase:
  "createBasePlate defaultSettings (Some tallSilhouette) =
     [(0, 0, - 2), (600, 0, - 2), (600, 1200, - 2), (0, 1200, - 2),
      (0, 0, 0), (600, 0, 0), (600, 1200, 0), (0, 1200, 0)]"
  by (simp add: createBasePlate_def defaultSettings_def tallSilhouette_def
      translateGeometry_def ExtrudeGeometry_def extrudeShape_def contourPoints_def Let_def)

lemma tallFrame_extentX: "extentX (flipGeometryY tallFrame) = Some 600"
  by (simp add: tallFrame_def extentX_def boundingBox_def flipGeometryY_def)

lemma tallGenerate:
  "generate defaultSettings exampleStamp (Some tallSilhouette) =
     Inr \<lparr>stampGeometry = scaleGeometry (3 / 20) (3 / 20) 1 exampleStamp,
          frameGeometry = scaleGeometry (3 / 20) (3 / 20) 1 (flipGeometryY tallFrame),
          baseGeometry = scaleGeometry (3 / 20) (3 / 20) 1
            (flipGeometryY (createBasePlate defaultSettings (Some tallSilhouette)))\<rparr>"
proof -
  have s: "shape defaultSettings = Outline" by (simp add: defaultSettings_def)
  have k: "outlineGroupScale defaultSettings (flipGeometryY tallFrame) = 3 / 20"
    by (simp add: outlineGroupScale_def tallFrame_extentX defaultSettings_def)
  show ?thesis
    unfolding generate_outline[OF s tallFrame_createCutterFrame] k ..
qed

subsection \<open>The outline branch\<close>

text \<open>
  C1 (as amended). For shape = outline and a silhouette for which createCutterFrame
  returns a wall whose measured bounding width frameW (after the flip) is positive, and a
  positive requested width: generate applies the single factor
  k = width / frameW to the x and y coordinates of stamp, wall and base (z is kept), and
  the bounding width of the wall becomes exactly the requested width. The y extent of the
  wall is multiplied by the same k and is not normalised, so the largest planar dimension
  of the assembly is larger than the requested width for a silhouette taller than wide.
\<close>

theorem C1_outline_width:
  assumes "shape settings = Outline"
    and "createCutterFrame settings (Some sil) = Inr frame0"
    and "extentX (flipGeometryY frame0) = Some frameW"
    and "0 < frameW"
    and "0 < width settings"
  shows "let k = width settings / frameW
         in generate settings stampGeo (Some sil) =
              Inr \<lparr>stampGeometry = scaleGeometry k k 1 stampGeo,
                   frameGeometry = scaleGeometry k k 1 (flipGeometryY frame0),
                   baseGeometry =
                     scaleGeometry k k 1 (flipGeometryY (createBasePlate settings (Some sil)))\<rparr>
            \<and> extentX (scaleGeometry k k 1 (flipGeometryY frame0)) = Some (width settings)
            \<and> extentY (scaleGeometry k k 1 (flipGeometryY frame0)) =
                map_option (\<lambda>frameH. frameH * k) (extentY (flipGeometryY frame0))"
proof -
  define k where "k = width settings / frameW"
  have k: "outlineGroupScale settings (flipGeometryY frame0) = k"
    using assms(3,4) by (simp add: outlineGroupScale_def k_def)
  have k0: "0 \<le> k" using assms(4,5) by (simp add: k_def less_imp_le)
  have gen: "generate settings stampGeo (Some sil) =
              Inr \<lparr>stampGeometry = scaleGeometry k k 1 stampGeo,
                   frameGeometry = scaleGeometry k k 1 (flipGeometryY frame0),
                   baseGeometry =
                     scaleGeometry k k 1 (flipGeometryY (createBasePlate settings (Some sil)))\<rparr>"
    using generate_outline[OF assms(1,2), of stampGeo] by (simp add: k)
  have "extentX (scaleGeometry k k 1 (flipGeometryY frame0)) = Some (frameW * k)"
    using assms(3) k0 by (rule extentX_scaleGeometry)
  moreover have "frameW * k = width settings" using assms(4) by (simp add: k_def)
  ultimately have ex: "extentX (scaleGeometry k k 1 (flipGeometryY frame0)) = Some (width settings)"
    by simp
  obtain frameH where h: "extentY (flipGeometryY frame0) = Some frameH"
    using assms(3) by (auto simp: extentX_Some_iff extentY_Some_iff)
  have ey: "extentY (scaleGeometry k k 1 (flipGeometryY frame0)) =
                map_option (\<lambda>frameH. frameH * k) (extentY (flipGeometryY frame0))"
    using extentY_scaleGeometry[OF h k0, of k 1] h by simp
  show ?thesis unfolding Let_def k_def[symmetric] using gen ex ey by blast
qed

theorem C1_outline_width_witness:
  "shape defaultSettings = Outline
   \<and> createCutterFrame defaultSettings (Some tallSilhouette) = Inr tallFrame
   \<and> extentX (flipGeometryY tallFrame) = Some 600
   \<and> (0::real) < 600 \<and> 0 < width defaultSettings
   \<and> generate defaultSettings exampleStamp (Some tallSilhouette) =
       Inr \<lparr>stampGeometry = scaleGeometry (3 / 20) (3 / 20) 1 exampleStamp,
            frameGeometry = scaleGeometry (3 / 20) (3 / 20) 1 (flipGeometryY tallFrame),
            baseGeometry = scaleGeometry (3 / 20) (3 / 20) 1
              (flipGeometryY (createBasePlate defaultSettings (Some tallSilhouette)))\<rparr>
   \<and> extentX (scaleGeometry (3 / 20) (3 / 20) 1 (flipGeometryY tallFrame)) = Some 90
   \<and> extentY (scaleGeometry (3 / 20) (3 / 20) 1 (flipGeometryY tallFrame)) = Some 180"
proof -
  have s: "shape defaultSettings = Outline" by (simp add: defaultSettings_def)
  have w: "0 < width defaultSettings" "width defaultSettings = 90"
    by (simp_all add: defaultSettings_def)
  have p: "(0::real) < 600" by simp
  have y: "extentY (flipGeometryY tallFrame) = Some 1200"
    by (simp add: tallFrame_def extentY_def boundingBox_def flipGeometryY_def)
  show ?thesis
    using s tallFrame_createCutterFrame tallFrame_extentX w(1)
      C1_outline_width[OF s tallFrame_createCutterFrame tallFrame_extentX p w(1), of exampleStamp]
    by (simp add: Let_def w(2) y)
qed

text \<open>
  The claim as stated fails: with the initial settings (width 90) and a silhouette of
  600 by 1200 tracing units, the largest planar dimension of the assembly is 180.
\<close>

theorem C1_counterexample:
  "shape defaultSettings = Outline \<and> width defaultSettings = 90
   \<and> maxPlanarDimension (generate defaultSettings exampleStamp (Some tallSilhouette)) = Some 180"
proof -
  have a: "shape defaultSettings = Outline" "width defaultSettings = 90"
    by (simp_all add: defaultSettings_def)
  have m: "maxPlanarDimension (generate defaultSettings exampleStamp (Some tallSilhouette)) =
      Some 180"
    unfolding tallGenerate tallBase
    by (simp add: exampleStamp_eq tallFrame_def maxPlanarDimension_def extentX_def
        extentY_def boundingBox_def scaleGeometry_def flipGeometryY_def)
  show ?thesis using a m by simp
qed

text \<open>
  C8. For shape = outline and a silhouette for which createCutterFrame returns a wall,
  the wall and the base stored by generate are the flipped geometries scaled by the group
  factor k, the factor being measured on the flipped wall: every vertex (x, y, z) of the
  wall and of the base built by createCutterFrame and createBasePlate becomes
  (x * k, - y * k, z), its y coordinate negated once.
\<close>

theorem C8_flip_once:
  assumes "shape settings = Outline"
    and "createCutterFrame settings (Some sil) = Inr frame0"
  shows "let base0 = createBasePlate settings (Some sil);
             k = outlineGroupScale settings (flipGeometryY frame0)
         in \<exists>a. generate settings stampGeo (Some sil) = Inr a
              \<and> frameGeometry a = scaleGeometry k k 1 (flipGeometryY frame0)
              \<and> baseGeometry a = scaleGeometry k k 1 (flipGeometryY base0)
              \<and> frameGeometry a = map (\<lambda>(x, y, z). (x * k, - y * k, z)) frame0
              \<and> baseGeometry a = map (\<lambda>(x, y, z). (x * k, - y * k, z)) base0"
proof -
  have m: "scaleGeometry k k 1 (flipGeometryY g) = map (\<lambda>(x, y, z). (x * k, - y * k, z)) g"
    for k g
    by (induction g) (auto simp: scaleGeometry_def flipGeometryY_def)
  show ?thesis
    unfolding Let_def using generate_outline[OF assms, of stampGeo] by (simp add: m)
qed

theorem C8_flip_once_witness:
  "shape defaultSettings = Outline
   \<and> createCutterFrame defaultSettings (Some tallSilhouette) = Inr tallFrame
   \<and> (\<exists>a. generate defaultSettings exampleStamp (Some tallSilhouette) = Inr a
         \<and> frameGeometry a = map (\<lambda>(x, y, z). (x * (3 / 20), - y * (3 / 20), z)) tallFrame
         \<and> baseGeometry a = map (\<lambda>(x, y, z). (x * (3 / 20), - y * (3 / 20), z))
                               (createBasePlate defaultSettings (Some tallSilhouette)))"
proof -
  have s: "shape defaultSettings = Outline" by (simp add: defaultSettings_def)
  have k: "outlineGroupScale defaultSettings (flipGeometryY tallFrame) = 3 / 20"
    by (simp add: outlineGroupScale_def tallFrame_extentX defaultSettings_def)
  show ?thesis
    using s tallFrame_createCutterFrame C8_flip_once[OF s tallFrame_createCutterFrame, of exampleStamp]
    by (simp add: Let_def k) blast
qed

subsection \<open>The rectangle and circle branch\<close>

lemma boundingBox_translateGeometry_xy:
  assumes "g \<noteq> []"
  shows "extentX (translateGeometry tx ty tz g) = extentX g"
    and "extentY (translateGeometry tx ty tz g) = extentY g"
    and "vx (getCenter (boundingBox (translateGeometry tx ty tz g))) =
           vx (getCenter (boundingBox g)) + tx"
    and "vy (getCenter (boundingBox (translateGeometry tx ty tz g))) =
           vy (getCenter (boundingBox g)) + ty"
proof -
  have fin: "finite (set g)" "set g \<noteq> {}" using assms by simp_all
  have x: "Max (set (map vx (translateGeometry tx ty tz g))) = Max (set (map vx g)) + tx"
    "Min (set (map vx (translateGeometry tx ty tz g))) = Min (set (map vx g)) + tx"
    using Max_image_add[OF fin, of vx tx] Min_image_add[OF fin, of vx tx]
    by (simp_all add: vx_translateGeometry image_image)
  have y: "Max (set (map vy (translateGeometry tx ty tz g))) = Max (set (map vy g)) + ty"
    "Min (set (map vy (translateGeometry tx ty tz g))) = Min (set (map vy g)) + ty"
    using Max_image_add[OF fin, of vy ty] Min_image_add[OF fin, of vy ty]
    by (simp_all add: vy_translateGeometry image_image)
  have ne: "translateGeometry tx ty tz g \<noteq> []"
    using assms by (simp add: translateGeometry_Nil_iff)
  show "extentX (translateGeometry tx ty tz g) = extentX g"
    unfolding extentX_def boundingBox_def using assms ne x by simp
  show "extentY (translateGeometry tx ty tz g) = extentY g"
    unfolding extentY_def boundingBox_def using assms ne y by simp
  show "vx (getCenter (boundingBox (translateGeometry tx ty tz g))) =
           vx (getCenter (boundingBox g)) + tx"
    unfolding getCenter_def boundingBox_def using assms ne x by (simp add: algebra_simps)
  show "vy (getCenter (boundingBox (translateGeometry tx ty tz g))) =
           vy (getCenter (boundingBox g)) + ty"
    unfolding getCenter_def boundingBox_def using assms ne y by (simp add: algebra_simps)
qed

lemma fitStamp_eq:
  assumes "extentX stampGeo = Some stampW" and "extentY stampGeo = Some stampH"
  shows "fitStamp settings stampGeo =
     translateGeometry
       (- vx (getCenter (boundingBox (scaleGeometry (fitScale settings stampW stampH)
                (fitScale settings stampW stampH) 1 stampGeo))))
       (- vy (getCenter (boundingBox (scaleGeometry (fitScale settings stampW stampH)
                (fitScale settings stampW stampH) 1 stampGeo)))) 0
       (scaleGeometry (fitScale settings stampW stampH) (fitScale settings stampW stampH) 1 stampGeo)"
  using assms by (simp add: fitStamp_def Let_def)

lemma fitStamp_layout:
  assumes "extentX stampGeo = Some stampW" and "extentY stampGeo = Some stampH"
    and "0 \<le> fitScale settings stampW stampH"
  shows "extentX (fitStamp settings stampGeo) = Some (stampW * fitScale settings stampW stampH)"
    and "extentY (fitStamp settings stampGeo) = Some (stampH * fitScale settings stampW stampH)"
    and "vx (getCenter (boundingBox (fitStamp settings stampGeo))) = 0"
    and "vy (getCenter (boundingBox (fitStamp settings stampGeo))) = 0"
proof -
  define s where "s = fitScale settings stampW stampH"
  define scaled where "scaled = scaleGeometry s s 1 stampGeo"
  have ne: "scaled \<noteq> []"
    using assms(1) by (simp add: scaled_def scaleGeometry_Nil_iff extentX_Some_iff)
  have f: "fitStamp settings stampGeo =
      translateGeometry (- vx (getCenter (boundingBox scaled)))
        (- vy (getCenter (boundingBox scaled))) 0 scaled"
    unfolding scaled_def s_def by (rule fitStamp_eq[OF assms(1,2)])
  have s0: "0 \<le> s" using assms(3) by (simp add: s_def)
  show "extentX (fitStamp settings stampGeo) = Some (stampW * fitScale settings stampW stampH)"
    unfolding f boundingBox_translateGeometry_xy(1)[OF ne]
    unfolding scaled_def s_def[symmetric]
    using assms(1) s0 by (rule extentX_scaleGeometry)
  show "extentY (fitStamp settings stampGeo) = Some (stampH * fitScale settings stampW stampH)"
    unfolding f boundingBox_translateGeometry_xy(2)[OF ne]
    unfolding scaled_def s_def[symmetric]
    using assms(2) s0 by (rule extentY_scaleGeometry)
  show "vx (getCenter (boundingBox (fitStamp settings stampGeo))) = 0"
    unfolding f boundingBox_translateGeometry_xy(3)[OF ne] by simp
  show "vy (getCenter (boundingBox (fitStamp settings stampGeo))) = 0"
    unfolding f boundingBox_translateGeometry_xy(4)[OF ne] by simp
qed

lemma generate_primitive:
  assumes "shape settings \<noteq> Outline"
  shows "\<exists>frameGeo. createCutterFrame settings None = Inr frameGeo \<and>
     generate settings stampGeo silhouetteShape =
       Inr \<lparr>stampGeometry = fitStamp settings stampGeo, frameGeometry = frameGeo,
            baseGeometry = createBasePlate settings None\<rparr>"
  using assms
  by (cases "shape settings")
     (simp_all add: generate_def createCutterFrame_def Let_def applyGroupScale_def)

lemma fitScale_bounds:
  assumes "0 < stampW" and "0 < stampH"
    and "0 < width settings - width settings * 0.05 * 2"
    and "0 < height settings - width settings * 0.05 * 2"
  shows "0 < fitScale settings stampW stampH"
    and "stampW * fitScale settings stampW stampH \<le> width settings - width settings * 0.05 * 2"
    and "stampH * fitScale settings stampW stampH \<le> height settings - width settings * 0.05 * 2"
    and "stampW * fitScale settings stampW stampH = width settings - width settings * 0.05 * 2
         \<or> stampH * fitScale settings stampW stampH = height settings - width settings * 0.05 * 2"
proof -
  define aw where "aw = width settings - width settings * 0.05 * 2"
  define ah where "ah = height settings - width settings * 0.05 * 2"
  have s: "fitScale settings stampW stampH = min (aw / stampW) (ah / stampH)"
    by (simp add: fitScale_def Let_def aw_def ah_def)
  have pos: "0 < aw" "0 < ah" using assms(3,4) by (simp_all add: aw_def ah_def)
  show "0 < fitScale settings stampW stampH"
    unfolding s using pos assms(1,2) by simp
  have "stampW * min (aw / stampW) (ah / stampH) \<le> stampW * (aw / stampW)"
    using assms(1) by (intro mult_left_mono) simp_all
  then show "stampW * fitScale settings stampW stampH \<le> width settings - width settings * 0.05 * 2"
    unfolding s aw_def[symmetric] using assms(1) by simp
  have "stampH * min (aw / stampW) (ah / stampH) \<le> stampH * (ah / stampH)"
    using assms(2) by (intro mult_left_mono) simp_all
  then show "stampH * fitScale settings stampW stampH \<le> height settings - width settings * 0.05 * 2"
    unfolding s ah_def[symmetric] using assms(2) by simp
  show "stampW * fitScale settings stampW stampH = width settings - width settings * 0.05 * 2
         \<or> stampH * fitScale settings stampW stampH = height settings - width settings * 0.05 * 2"
    unfolding s aw_def[symmetric] ah_def[symmetric] using assms(1,2)
    by (cases "aw / stampW \<le> ah / stampH") (simp_all add: min_def)
qed

lemma thinStamp_eq:
  "thinStamp = [(0, 0, 0), (12, 0, 0), (12, - 1200, 0), (0, - 1200, 0),
                (0, 0, 7 / 2), (12, 0, 7 / 2), (12, - 1200, 7 / 2), (0, - 1200, 7 / 2)]"
  by (simp add: thinStamp_def stampFromShapes_def narrowSettings_def defaultSettings_def
      BufferGeometry_def scaleGeometry_def ExtrudeGeometry_def extrudeShape_def contourPoints_def)

lemma thinStamp_extent: "extentX thinStamp = Some 12" "extentY thinStamp = Some 1200"
  by (simp_all add: thinStamp_eq extentX_def extentY_def boundingBox_def)

lemma narrowSettings_simps:
  "shape narrowSettings = Rectangle" "width narrowSettings = 30" "height narrowSettings = 150"
  by (simp_all add: narrowSettings_def defaultSettings_def)

lemma thinStamp_fit:
  "fitStamp narrowSettings thinStamp =
     [(- (147 / 200), 147 / 2, 0), (147 / 200, 147 / 2, 0), (147 / 200, - (147 / 2), 0),
      (- (147 / 200), - (147 / 2), 0),
      (- (147 / 200), 147 / 2, 7 / 2), (147 / 200, 147 / 2, 7 / 2),
      (147 / 200, - (147 / 2), 7 / 2), (- (147 / 200), - (147 / 2), 7 / 2)]"
proof -
  have s: "fitScale narrowSettings 12 1200 = 49 / 400"
    by (simp add: fitScale_def narrowSettings_simps Let_def)
  show ?thesis
    unfolding fitStamp_eq[OF thinStamp_extent] s
    by (simp add: thinStamp_eq scaleGeometry_def getCenter_def boundingBox_def
        translateGeometry_def)
qed

text \<open>
  C7 (as amended). For shape = rectangle or circle, a relief whose bounding box has
  positive width stampW and height stampH, and positive available extents
  availableW = width - 2 * padding and availableH = height - 2 * padding with
  padding = 5% of the width on both axes: generate scales the relief by the one positive
  factor s = min(availableW / stampW, availableH / stampH) on x and y and translates it
  in the plane; the extents of the result are stampW * s \<le> availableW and
  stampH * s \<le> availableH, one of the two bounds being attained, and the centre of its
  bounding box has x = 0 and y = 0.
\<close>

theorem C7_fit_footprint:
  assumes "shape settings \<noteq> Outline"
    and "extentX stampGeo = Some stampW" and "extentY stampGeo = Some stampH"
    and "0 < stampW" and "0 < stampH"
    and "0 < width settings - width settings * 0.05 * 2"
    and "0 < height settings - width settings * 0.05 * 2"
  shows "let padding = width settings * 0.05;
             availableW = width settings - padding * 2;
             availableH = height settings - padding * 2;
             s = min (availableW / stampW) (availableH / stampH)
         in 0 < s
            \<and> (\<exists>a. generate settings stampGeo silhouetteShape = Inr a
                 \<and> (\<exists>tx ty. stampGeometry a =
                               translateGeometry tx ty 0 (scaleGeometry s s 1 stampGeo))
                 \<and> extentX (stampGeometry a) = Some (stampW * s)
                 \<and> extentY (stampGeometry a) = Some (stampH * s)
                 \<and> stampW * s \<le> availableW \<and> stampH * s \<le> availableH
                 \<and> (stampW * s = availableW \<or> stampH * s = availableH)
                 \<and> vx (getCenter (boundingBox (stampGeometry a))) = 0
                 \<and> vy (getCenter (boundingBox (stampGeometry a))) = 0)"
proof -
  define s where "s = fitScale settings stampW stampH"
  have s': "min ((width settings - width settings * 0.05 * 2) / stampW)
                ((height settings - width settings * 0.05 * 2) / stampH) = s"
    by (simp add: s_def fitScale_def Let_def)
  note b = fitScale_bounds[OF assms(4-7), folded s_def]
  have s0: "0 \<le> fitScale settings stampW stampH" using b(1) by (simp add: s_def)
  note l = fitStamp_layout[OF assms(2,3) s0, folded s_def]
  obtain frameGeo where g: "generate settings stampGeo silhouetteShape =
       Inr \<lparr>stampGeometry = fitStamp settings stampGeo, frameGeometry = frameGeo,
            baseGeometry = createBasePlate settings None\<rparr>"
    using generate_primitive[OF assms(1)] by blast
  have t: "\<exists>tx ty. fitStamp settings stampGeo =
                               translateGeometry tx ty 0 (scaleGeometry s s 1 stampGeo)"
    using fitStamp_eq[OF assms(2,3), of settings, folded s_def] by blast
  show ?thesis
    unfolding Let_def s' using b l g t by simp
qed

theorem C7_fit_footprint_witness:
  "shape narrowSettings \<noteq> Outline
   \<and> extentX thinStamp = Some 12 \<and> extentY thinStamp = Some 1200
   \<and> (0::real) < 12 \<and> (0::real) < 1200
   \<and> 0 < width narrowSettings - width narrowSettings * 0.05 * 2
   \<and> 0 < height narrowSettings - width narrowSettings * 0.05 * 2
   \<and> (\<exists>a. generate narrowSettings thinStamp None = Inr a
         \<and> extentX (stampGeometry a) = Some (12 * (49 / 400))
         \<and> extentY (stampGeometry a) = Some 147
         \<and> vx (getCenter (boundingBox (stampGeometry a))) = 0
         \<and> vy (getCenter (boundingBox (stampGeometry a))) = 0)"
proof -
  have h: "shape narrowSettings \<noteq> Outline" "(0::real) < 12" "(0::real) < 1200"
    "0 < width narrowSettings - width narrowSettings * 0.05 * 2"
    "0 < height narrowSettings - width narrowSettings * 0.05 * 2"
    by (simp_all add: narrowSettings_simps)
  show ?thesis
    using h thinStamp_extent
      C7_fit_footprint[OF h(1) thinStamp_extent h(2-5), of None]
    by (simp add: Let_def narrowSettings_simps) blast
qed

text \<open>
  The claim as stated fails: for a rectangle of width 30 and height 150 the height reduced
  by 5% of the height on each side is 135, and the fitted relief is 147 high.
\<close>

theorem C7_counterexample:
  "shape narrowSettings = Rectangle
   \<and> height narrowSettings - 2 * (0.05 * height narrowSettings) = 135
   \<and> resultStamp (generate narrowSettings thinStamp None) =
       Some [(- (147 / 200), 147 / 2, 0), (147 / 200, 147 / 2, 0), (147 / 200, - (147 / 2), 0),
             (- (147 / 200), - (147 / 2), 0),
             (- (147 / 200), 147 / 2, 7 / 2), (147 / 200, 147 / 2, 7 / 2),
             (147 / 200, - (147 / 2), 7 / 2), (- (147 / 200), - (147 / 2), 7 / 2)]
   \<and> extentY [(- (147 / 200), 147 / 2, 0), (147 / 200, 147 / 2, 0), (147 / 200, - (147 / 2), 0),
             (- (147 / 200), - (147 / 2), 0),
             (- (147 / 200), 147 / 2, 7 / 2), (147 / 200, 147 / 2, 7 / 2),
             (147 / 200, - (147 / 2), 7 / 2), (- (147 / 200), - (147 / 2), 7 / 2)] = Some 147"
proof -
  have ns: "shape narrowSettings \<noteq> Outline" by (simp add: narrowSettings_simps)
  from generate_primitive[OF ns, of thinStamp None]
  have "resultStamp (generate narrowSettings thinStamp None) = Some (fitStamp narrowSettings thinStamp)"
    by (auto simp: resultStamp_def)
  then show ?thesis
    by (simp add: thinStamp_fit narrowSettings_simps extentY_def boundingBox_def)
qed

subsection \<open>The silhouette expansion\<close>

lemma sourceOver_opaque: "sourceOver blend (r, g, b, 255) dst = (r, g, b, 255)"
  by (simp add: sourceOver_def)

lemma composite_opaque:
  assumes "\<forall>p\<in>set src. snd (snd (snd p)) = 255" and "length src \<le> length dst"
  shows "composite blend src dst = src"
  using assms
proof (induction src arbitrary: dst)
  case Nil
  show ?case by (simp add: composite_def)
next
  case (Cons p ps)
  from Cons.prems(2) obtain d ds where dst: "dst = d # ds" by (cases dst) auto
  obtain r g b a where p: "p = (r, g, b, a)" by (cases p)
  from Cons.prems(1) p have a: "a = 255" by simp
  have "composite blend ps ds = ps"
    using Cons.IH[of ds] Cons.prems dst by simp
  then show ?case
    using p a dst by (simp add: composite_def sourceOver_def)
qed

lemma length_composite: "length (composite blend src dst) = min (length src) (length dst)"
  by (simp add: composite_def)

lemma drawImageWithShadow_opaque:
  assumes "\<forall>p\<in>set img. snd (snd (snd p)) = 255"
    and "length (shadow img) = length img" and "length canvas = length img"
  shows "drawImageWithShadow blend shadow img canvas = img"
  unfolding drawImageWithShadow_def
  using assms by (intro composite_opaque) (simp_all add: length_composite)

lemma dilation_opaque:
  assumes "\<forall>p\<in>set canvas. snd (snd (snd p)) = 255"
    and "length (shadow canvas) = length canvas"
  shows "dilation blend shadow canvas = canvas"
  using assms by (simp add: dilation_def Let_def drawImageWithShadow_opaque)

lemma contentPixel_alpha: "snd (snd (snd (contentPixel p))) = snd (snd (snd p))"
  by (cases p) (simp add: contentPixel_def Let_def)

lemma bubblePixel_black: "bubblePixel (0, 0, 0, 255) = (0, 0, 0, 255)"
  by (simp add: bubblePixel_def Let_def)

lemma bubblePixel_white: "bubblePixel (255, 255, 255, 255) = (255, 255, 255, 255)"
  by (simp add: bubblePixel_def Let_def)

lemma contentPixel_opaque:
  "snd (snd (snd p)) = 255 \<Longrightarrow>
     contentPixel p = (0, 0, 0, 255) \<or> contentPixel p = (255, 255, 255, 255)"
  by (cases p) (simp add: contentPixel_def Let_def)

text \<open>
  The canvas read by getImageData was filled with opaque white before the image was drawn
  on it, so every pixel of the data is opaque. An opaque image composited over its own
  shadow replaces it: whatever shadow layer the browser renders, the temporary canvas
  holds the two-tone image after each of the three draws, and the cut at 240 maps black
  to black and white to white.
\<close>

lemma expandedMask_opaque:
  assumes "\<forall>p\<in>set data. snd (snd (snd p)) = 255"
    and "length (shadow (highContrast data)) = length data"
  shows "expandedMask blend shadow data = highContrast data"
proof -
  have op: "\<forall>p\<in>set (highContrast data). snd (snd (snd p)) = 255"
    using assms(1) by (auto simp: highContrast_def contentPixel_alpha)
  have len: "length (highContrast data) = length data" by (simp add: highContrast_def)
  have d: "dilation blend shadow (highContrast data) = highContrast data"
    using op assms(2) len by (intro dilation_opaque) simp_all
  have "bubblePixel (contentPixel p) = contentPixel p" if "p \<in> set data" for p
    using contentPixel_opaque[of p] assms(1) that
    by (auto simp: bubblePixel_black bubblePixel_white)
  then have "map bubblePixel (highContrast data) = highContrast data"
    by (simp add: highContrast_def map_idI)
  then show ?thesis by (simp add: expandedMask_def d cutterThreshold_def)
qed

text \<open>
  C4. For every opaque canvas data and every shadow layer of the size of the canvas, the
  expanded mask has the size of the input mask, and every pixel that is content (black)
  in the input mask (the data after pass 1) is content in the expanded mask.
\<close>

theorem C4_expansion_contains:
  assumes "\<forall>p\<in>set data. snd (snd (snd p)) = 255"
    and "length (shadow (highContrast data)) = length data"
  shows "length (expandedMask blend shadow data) = length data
       \<and> (\<forall>i<length data. highContrast data ! i = (0, 0, 0, 255)
             \<longrightarrow> expandedMask blend shadow data ! i = (0, 0, 0, 255))"
  using expandedMask_opaque[where data = data and shadow = shadow and blend = blend, OF assms]
  by (simp add: highContrast_def)

lemma exampleData_highContrast:
  "highContrast exampleData = [(0, 0, 0, 255), (255, 255, 255, 255)]"
  by (simp add: highContrast_def exampleData_def contentPixel_def Let_def)

theorem C4_expansion_contains_witness:
  "length (exampleShadow (highContrast exampleData)) = length exampleData
   \<and> highContrast exampleData ! 0 = (0, 0, 0, 255)
   \<and> expandedMask exampleBlend exampleShadow exampleData ! 0 = (0, 0, 0, 255)"
proof -
  have a: "\<forall>p\<in>set exampleData. snd (snd (snd p)) = 255" by (simp add: exampleData_def)
  have l: "length (exampleShadow (highContrast exampleData)) = length exampleData"
    by (simp add: exampleShadow_def highContrast_def)
  have n: "0 < length exampleData" by (simp add: exampleData_def)
  have h: "highContrast exampleData ! 0 = (0, 0, 0, 255)"
    by (simp add: exampleData_highContrast)
  from C4_expansion_contains[where data = exampleData and shadow = exampleShadow
      and blend = exampleBlend, OF a l] n h
  have "expandedMask exampleBlend exampleShadow exampleData ! 0 = (0, 0, 0, 255)" by blast
  with l h show ?thesis by simp
qed

subsection \<open>The relief without contours or without depth\<close>

text \<open>
  C6 (as amended). When the relief trace yields no shape, createStampGeometry returns the
  empty BufferGeometry (a value, nothing is thrown), and the fit of generate leaves an
  empty relief empty. When the trace yields a shape, createStampGeometry returns the
  flipped extrusion by detailHeight whatever the sign of detailHeight: no builder tests
  the depth.
\<close>

theorem C6_empty_relief:
  "(trace (thresholding settings data) = [] \<longrightarrow>
      createStampGeometry trace settings data = BufferGeometry)
   \<and> BufferGeometry = []
   \<and> fitStamp settings BufferGeometry = BufferGeometry
   \<and> (trace (thresholding settings data) \<noteq> [] \<longrightarrow>
        createStampGeometry trace settings data =
          scaleGeometry 1 (- 1) 1
            (ExtrudeGeometry (trace (thresholding settings data)) (detailHeight settings)))"
  by (simp add: createStampGeometry_def stampFromShapes_def BufferGeometry_def fitStamp_def
      extentX_def boundingBox_def)

theorem C6_empty_relief_witness:
  "noShape (thresholding defaultSettings exampleData) = []
   \<and> createStampGeometry noShape defaultSettings exampleData = []
   \<and> oneSquare (thresholding defaultSettings exampleData) \<noteq> []
   \<and> createStampGeometry oneSquare defaultSettings exampleData =
       [(0, 0, 0), (1, 0, 0), (1, - 1, 0), (0, - 1, 0),
        (0, 0, 7 / 2), (1, 0, 7 / 2), (1, - 1, 7 / 2), (0, - 1, 7 / 2)]"
  using C6_empty_relief[of noShape defaultSettings exampleData]
        C6_empty_relief[of oneSquare defaultSettings exampleData]
  by (simp add: noShape_def oneSquare_def BufferGeometry_def squareShape_def
      scaleGeometry_def ExtrudeGeometry_def extrudeShape_def contourPoints_def
      defaultSettings_def)

text \<open>
  The claim as stated fails: with detailHeight = 0 and a traced unit square the result is
  the flat geometry of eight positions at z = 0, not an empty geometry.
\<close>

theorem C6_counterexample:
  "detailHeight flatSettings \<le> 0
   \<and> createStampGeometry oneSquare flatSettings exampleData =
       [(0, 0, 0), (1, 0, 0), (1, - 1, 0), (0, - 1, 0),
        (0, 0, 0), (1, 0, 0), (1, - 1, 0), (0, - 1, 0)]
   \<and> createStampGeometry oneSquare flatSettings exampleData \<noteq> BufferGeometry"
  by (simp add: createStampGeometry_def stampFromShapes_def oneSquare_def BufferGeometry_def
      squareShape_def scaleGeometry_def ExtrudeGeometry_def extrudeShape_def
      contourPoints_def flatSettings_def defaultSettings_def)

end
